theory Spec2Isabelle
  imports Complex_Main "HOL-Library.AList"
begin

section \<open>Python values\<close>

text \<open>
  The values that travel through the service are parsed JSON documents and the Python
  objects built from them. \<open>JNull\<close> is Python's \<^verbatim>\<open>None\<close>. A dict is
  an association list in insertion order; lookups take the first binding of a key.
  Floats are the finite ones (NaN and the infinities are not represented).
\<close>

datatype json =
    JNull
  | JBool bool
  | JInt int
  | JFloat real
  | JStr string
  | JList "json list"
  | JDict "(string \<times> json) list"

text \<open>Python truthiness (\<^verbatim>\<open>bool(v)\<close>).\<close>

fun truthy :: "json \<Rightarrow> bool" where
  "truthy JNull = False"
| "truthy (JBool b) = b"
| "truthy (JInt n) = (n \<noteq> 0)"
| "truthy (JFloat r) = (r \<noteq> 0)"
| "truthy (JStr s) = (s \<noteq> [])"
| "truthy (JList xs) = (xs \<noteq> [])"
| "truthy (JDict d) = (d \<noteq> [])"

text \<open>\<^verbatim>\<open>a or b\<close>: the first operand when it is truthy, the second otherwise.\<close>

definition py_or :: "json \<Rightarrow> json \<Rightarrow> json" where
  "py_or a b = (if truthy a then a else b)"

text \<open>\<^verbatim>\<open>v == n\<close> for an integer literal \<open>n\<close>: numbers compare by value,
  \<^verbatim>\<open>True\<close> is 1 and \<^verbatim>\<open>False\<close> is 0.\<close>

fun py_eq_int :: "json \<Rightarrow> int \<Rightarrow> bool" where
  "py_eq_int (JInt m) n = (m = n)"
| "py_eq_int (JFloat r) n = (r = of_int n)"
| "py_eq_int (JBool b) n = ((if b then 1 else 0) = n)"
| "py_eq_int JNull n = False"
| "py_eq_int (JStr s) n = False"
| "py_eq_int (JList xs) n = False"
| "py_eq_int (JDict d) n = False"

text \<open>\<^verbatim>\<open>d.get(k)\<close> and \<^verbatim>\<open>d.get(k, default)\<close> on a dict.\<close>

definition dict_get :: "(string \<times> json) list \<Rightarrow> string \<Rightarrow> json" where
  "dict_get d k = (case map_of d k of None \<Rightarrow> JNull | Some v \<Rightarrow> v)"

definition dict_get_default :: "(string \<times> json) list \<Rightarrow> string \<Rightarrow> json \<Rightarrow> json" where
  "dict_get_default d k dflt = (case map_of d k of None \<Rightarrow> dflt | Some v \<Rightarrow> v)"

text \<open>Exceptions carry the text that \<^verbatim>\<open>str(e)\<close> gives.\<close>

datatype py_exn =
    AttributeError string
  | RequestException string
  | GenericException string

fun exn_str :: "py_exn \<Rightarrow> string" where
  "exn_str (AttributeError m) = m"
| "exn_str (RequestException m) = m"
| "exn_str (GenericException m) = m"

fun type_name :: "json \<Rightarrow> string" where
  "type_name JNull = ''NoneType''"
| "type_name (JBool b) = ''bool''"
| "type_name (JInt n) = ''int''"
| "type_name (JFloat r) = ''float''"
| "type_name (JStr s) = ''str''"
| "type_name (JList xs) = ''list''"
| "type_name (JDict d) = ''dict''"

definition no_attribute :: "json \<Rightarrow> string \<Rightarrow> py_exn" where
  "no_attribute v attr =
     AttributeError ([CHR 0x27] @ type_name v @ [CHR 0x27] @ '' object has no attribute ''
                     @ [CHR 0x27] @ attr @ [CHR 0x27])"

text \<open>\<^verbatim>\<open>v.get(k)\<close> on an arbitrary value: only a dict has the method.\<close>

fun py_get :: "json \<Rightarrow> string \<Rightarrow> py_exn + json" where
  "py_get (JDict d) k = Inr (dict_get d k)"
| "py_get v k = Inl (no_attribute v ''get'')"

section \<open>Response normalizer (utils/helpers.py)\<close>

text \<open>The inner loop \<^verbatim>\<open>for key in ("id", "task_id", "taskId", "taskID")\<close>: the value
  of the first key whose value is truthy, if there is one.\<close>

definition task_id_keys :: "string list" where
  "task_id_keys = [''id'', ''task_id'', ''taskId'', ''taskID'']"

fun probe_keys :: "string list \<Rightarrow> (string \<times> json) list \<Rightarrow> json option" where
  "probe_keys [] d = None"
| "probe_keys (k # ks) d = (if truthy (dict_get d k) then Some (dict_get d k) else probe_keys ks d)"

text \<open>The loop over the elements of a \<^verbatim>\<open>data\<close> list; elements that are not dicts
  are skipped.\<close>

fun probe_candidates :: "json list \<Rightarrow> json option" where
  "probe_candidates [] = None"
| "probe_candidates (JDict c # cs) =
     (case probe_keys task_id_keys c of Some v \<Rightarrow> Some v | None \<Rightarrow> probe_candidates cs)"
| "probe_candidates (c # cs) = probe_candidates cs"

text \<open>\<^verbatim>\<open>extract_task_id(item)\<close>; the result \<open>JNull\<close> is the \<^verbatim>\<open>None\<close> the
  function returns when nothing is found.\<close>

definition extract_meta :: "(string \<times> json) list \<Rightarrow> json" where
  "extract_meta item =
     (case dict_get item ''metadata'' of
        JDict meta \<Rightarrow> (case probe_keys task_id_keys meta of Some v \<Rightarrow> v | None \<Rightarrow> JNull)
      | _ \<Rightarrow> JNull)"

definition extract_data_list :: "(string \<times> json) list \<Rightarrow> json" where
  "extract_data_list item =
     (case dict_get item ''data'' of
        JList cs \<Rightarrow> (case probe_candidates cs of Some v \<Rightarrow> v | None \<Rightarrow> extract_meta item)
      | _ \<Rightarrow> extract_meta item)"

definition extract_data_dict :: "(string \<times> json) list \<Rightarrow> json" where
  "extract_data_dict item =
     (case dict_get item ''data'' of
        JDict dd \<Rightarrow> (case probe_keys task_id_keys dd of Some v \<Rightarrow> v | None \<Rightarrow> extract_data_list item)
      | _ \<Rightarrow> extract_data_list item)"

fun extract_task_id :: "json \<Rightarrow> json" where
  "extract_task_id (JDict item) =
     (if item = [] then JNull
      else case probe_keys task_id_keys item of
             Some v \<Rightarrow> v
           | None \<Rightarrow> extract_data_dict item)"
| "extract_task_id v = JNull"

text \<open>The contract in the specification's words: an ordered list of places to look
  (the mapping itself, a nested \<open>data\<close> object, each element of a nested \<open>data\<close> list,
  a nested \<open>metadata\<close> object), each probed under the four keys in order; the first
  non-empty value wins.\<close>

definition probe_places :: "(string \<times> json) list \<Rightarrow> (string \<times> json) list list" where
  "probe_places item =
     [item]
     @ (case dict_get item ''data'' of JDict dd \<Rightarrow> [dd] | _ \<Rightarrow> [])
     @ (case dict_get item ''data'' of
          JList cs \<Rightarrow> concat (map (\<lambda>c. case c of JDict cd \<Rightarrow> [cd] | _ \<Rightarrow> []) cs)
        | _ \<Rightarrow> [])
     @ (case dict_get item ''metadata'' of JDict meta \<Rightarrow> [meta] | _ \<Rightarrow> [])"

definition ordered_probe_spec :: "json \<Rightarrow> json" where
  "ordered_probe_spec v =
     (case v of
        JDict item \<Rightarrow>
          (case List.find truthy
                  (concat (map (\<lambda>d. map (dict_get d) task_id_keys) (probe_places item))) of
             Some r \<Rightarrow> r
           | None \<Rightarrow> JNull)
      | _ \<Rightarrow> JNull)"

section \<open>Strings\<close>

text \<open>\<^verbatim>\<open>str.strip()\<close>, \<^verbatim>\<open>str.lower()\<close> and \<^verbatim>\<open>str.rstrip(ch)\<close> on ASCII text:
  the white space is the ASCII white space of Python, and only the letters A to Z have
  a lower case.\<close>

definition is_space :: "char \<Rightarrow> bool" where
  "is_space c = ((of_char c :: nat) \<in> set [9, 10, 11, 12, 13, 28, 29, 30, 31, 32])"

definition strip :: "string \<Rightarrow> string" where
  "strip s = rev (dropWhile is_space (rev (dropWhile is_space s)))"

definition lower_char :: "char \<Rightarrow> char" where
  "lower_char c = (if 65 \<le> (of_char c :: nat) \<and> (of_char c :: nat) \<le> 90
                   then char_of ((of_char c :: nat) + 32) else c)"

definition lower :: "string \<Rightarrow> string" where
  "lower s = map lower_char s"

definition rstrip_char :: "char \<Rightarrow> string \<Rightarrow> string" where
  "rstrip_char ch s = rev (dropWhile (\<lambda>c. c = ch) (rev s))"

fun py_strip :: "json \<Rightarrow> py_exn + string" where
  "py_strip (JStr s) = Inr (strip s)"
| "py_strip v = Inl (no_attribute v ''strip'')"

fun py_lower :: "json \<Rightarrow> py_exn + string" where
  "py_lower (JStr s) = Inr (lower s)"
| "py_lower v = Inl (no_attribute v ''lower'')"

section \<open>Song records (models/song.py)\<close>

datatype SongStatus = pending | processing | completed | failed

fun status_value :: "SongStatus \<Rightarrow> string" where
  "status_value pending = ''pending''"
| "status_value processing = ''processing''"
| "status_value completed = ''completed''"
| "status_value failed = ''failed''"

text \<open>One row of the table \<open>song\<close>. The column \<open>id\<close> is \<open>song_id\<close> here. The fields
  hold the Python values assigned to them. The two timestamps are left out: they are
  read from the clock and no operation below looks at them.\<close>

record Song =
  song_id :: nat
  task_id :: json
  title :: json
  lyrics :: json
  style :: json
  mood :: json
  theme :: json
  artist_name :: json
  audio_url :: json
  suno_url :: json
  cloudinary_url :: json
  status :: SongStatus
  retry_count :: int
  error_message :: json
  duration :: json

text \<open>\<^verbatim>\<open>Song.__init__\<close>. The constructor has no parameter for \<open>audio_url\<close>,
  \<open>retry_count\<close> or \<open>error_message\<close>: they keep their column defaults (null, 0, null).
  The key is assigned when the row is inserted.\<close>

definition Song_init ::
  "json \<Rightarrow> json \<Rightarrow> json \<Rightarrow> json \<Rightarrow> json \<Rightarrow> json \<Rightarrow> json \<Rightarrow> json \<Rightarrow> SongStatus \<Rightarrow> json \<Rightarrow> json \<Rightarrow> Song" where
  "Song_init p_title p_lyrics p_style p_mood p_theme p_task_id p_suno_url p_cloudinary_url
             p_status p_artist_name p_duration =
     \<lparr> song_id = 0, task_id = p_task_id, title = p_title, lyrics = p_lyrics, style = p_style,
       mood = p_mood, theme = p_theme, artist_name = p_artist_name, audio_url = JNull,
       suno_url = p_suno_url, cloudinary_url = p_cloudinary_url, status = p_status,
       retry_count = 0, error_message = JNull, duration = p_duration \<rparr>"

subsection \<open>The table\<close>

text \<open>\<^verbatim>\<open>Song.query.filter_by(task_id=t).first()\<close>.\<close>

definition query_first :: "Song list \<Rightarrow> json \<Rightarrow> Song option" where
  "query_first db tid = List.find (\<lambda>s. task_id s = tid) db"

definition next_id :: "Song list \<Rightarrow> nat" where
  "next_id db = Suc (fold max (map song_id db) 0)"

text \<open>\<^verbatim>\<open>db.session.add(song); db.session.commit()\<close>: the row gets a fresh key; the
  column \<open>task_id\<close> is not nullable and unique, so a row without a task id or with
  the task id of another row is rejected. Any other failure of a commit is the
  \<open>db_commit_error\<close> of the environment below.\<close>

definition db_add_commit :: "Song list \<Rightarrow> Song \<Rightarrow> Song list option" where
  "db_add_commit db s =
     (if task_id s = JNull \<or> task_id s \<in> set (map task_id db) then None
      else Some (db @ [s\<lparr>song_id := next_id db\<rparr>]))"

text \<open>Committing the changed fields of a row that was read from the table.\<close>

definition db_update_commit :: "Song list \<Rightarrow> Song \<Rightarrow> Song list" where
  "db_update_commit db s = map (\<lambda>x. if song_id x = song_id s then s else x) db"

section \<open>The outside world\<close>

text \<open>The outcome of an HTTP call made with \<^verbatim>\<open>requests\<close>: the call raises, or
  it returns a response with a status code, a body text and, when the body parses, the
  JSON document of \<^verbatim>\<open>resp.json()\<close>.\<close>

datatype http_result =
    HttpError string
  | HttpResponse int string "json option"

text \<open>What the collaborators answer while one request is handled: the suffix that
  \<^verbatim>\<open>_unique_title\<close> takes from the clock and \<^verbatim>\<open>uuid4\<close>, the outcome of
  \<^verbatim>\<open>generate_lyrics\<close> (the error text, or the lyrics), the provider's answers, the
  download of the audio, the URL returned by \<^verbatim>\<open>upload_to_cloudinary\<close> (empty when the
  upload failed), and whether a query or a commit of the database session raises.\<close>

record env =
  unique_suffix :: string
  gemini :: "string + string"
  suno_post :: "json \<Rightarrow> http_result"
  suno_get :: "string \<Rightarrow> http_result"
  fetch_audio :: "json \<Rightarrow> http_result"
  upload_to_cloudinary :: "json \<Rightarrow> string"
  db_query_error :: "string option"
  db_commit_error :: "string option"

record config =
  app_base_url :: string

text \<open>The state that outlives a request: the table, and the payloads handed to
  \<^verbatim>\<open>requests.post\<close> for the provider's generate endpoint, oldest first.\<close>

record world =
  songs :: "Song list"
  sent :: "json list"

section \<open>Generation orchestrator (utils/music_generator.py)\<close>

text \<open>\<^verbatim>\<open>_unique_title\<close>: the stripped title, or \<open>Untitled\<close>, followed by the suffix.\<close>

definition unique_title :: "env \<Rightarrow> json \<Rightarrow> py_exn + json" where
  "unique_title e p_title =
     (if truthy p_title
      then (case py_strip p_title of
              Inl x \<Rightarrow> Inl x
            | Inr base_title \<Rightarrow> Inr (JStr (base_title @ ''_'' @ unique_suffix e)))
      else Inr (JStr (''Untitled'' @ ''_'' @ unique_suffix e)))"

text \<open>\<^verbatim>\<open>generate_lyrics\<close>: the language model is a collaborator; a failure of the call
  or of the normalisation of its answer is raised again with the prefixed message.\<close>

definition generate_lyrics :: "env \<Rightarrow> py_exn + json" where
  "generate_lyrics e =
     (case gemini e of
        Inl msg \<Rightarrow> Inl (GenericException (''Gemini generation failed: '' @ msg))
      | Inr text \<Rightarrow> Inr (JStr text))"

text \<open>The test \<^verbatim>\<open>style and style.strip().lower() != "instrumental"\<close>.\<close>

definition style_included :: "json \<Rightarrow> py_exn + bool" where
  "style_included p_style =
     (if \<not> truthy p_style then Inr False
      else (case py_strip p_style of
              Inl x \<Rightarrow> Inl x
            | Inr stripped \<Rightarrow> Inr (lower stripped \<noteq> ''instrumental'')))"

text \<open>The task id of an accepted response (the \<open>or\<close> chains over \<open>data\<close> as a dict and
  as a non-empty list).\<close>

definition suno_task_id_of :: "(string \<times> json) list \<Rightarrow> py_exn + json" where
  "suno_task_id_of resp_json =
     (case dict_get resp_json ''data'' of
        JDict data_field \<Rightarrow>
          Inr (py_or (dict_get data_field ''taskId'')
              (py_or (dict_get data_field ''task_id'')
              (py_or (dict_get resp_json ''taskId'')
                     (dict_get resp_json ''task_id''))))
      | JList data_field \<Rightarrow>
          (case data_field of
             [] \<Rightarrow> Inr JNull
           | x # xs \<Rightarrow>
               (case py_or x (JDict []) of
                  JDict first \<Rightarrow>
                    Inr (py_or (dict_get first ''taskId'')
                        (py_or (dict_get first ''task_id'')
                        (py_or (dict_get first ''id'')
                        (py_or (dict_get resp_json ''taskId'')
                               (dict_get resp_json ''task_id'')))))
                | v \<Rightarrow> Inl (no_attribute v ''get'')))
      | _ \<Rightarrow> Inr JNull)"

text \<open>The insert-if-absent step: a failure of the query or of the commit is logged and
  swallowed, and the table stays as it was.\<close>

definition persist_song :: "env \<Rightarrow> Song list \<Rightarrow> Song \<Rightarrow> Song list" where
  "persist_song e db s =
     (case db_query_error e of
        Some err \<Rightarrow> db
      | None \<Rightarrow>
          (case query_first db (task_id s) of
             Some existing \<Rightarrow> db
           | None \<Rightarrow>
               (case db_commit_error e of
                  Some err \<Rightarrow> db
                | None \<Rightarrow> (case db_add_commit db s of None \<Rightarrow> db | Some db' \<Rightarrow> db'))))"

text \<open>The body of the outer \<^verbatim>\<open>try\<close> of \<^verbatim>\<open>generate_music\<close>, from the answer of
  \<^verbatim>\<open>requests.post\<close> on.\<close>

definition generate_music_try ::
  "env \<Rightarrow> Song list \<Rightarrow> json \<Rightarrow> json \<Rightarrow> json \<Rightarrow> json \<Rightarrow> json \<Rightarrow> http_result
     \<Rightarrow> py_exn + ((json \<times> int) \<times> Song list)" where
  "generate_music_try e db p_lyrics p_style p_title p_mood p_theme resp =
     (case resp of
        HttpError msg \<Rightarrow> Inl (RequestException msg)
      | HttpResponse status_code text body \<Rightarrow>
          (case body of
             None \<Rightarrow>
               Inr ((JDict [(''error'', JStr ''Invalid response from Suno''),
                            (''raw_response'', JStr text)], 502), db)
           | Some (JDict resp_json) \<Rightarrow>
               (if status_code \<noteq> 200 \<or> \<not> py_eq_int (dict_get resp_json ''code'') 200
                then Inr ((JDict [(''error'', py_or (dict_get resp_json ''msg'') (JStr ''Suno error'')),
                                  (''raw_response'', JDict resp_json)], 502), db)
                else (case suno_task_id_of resp_json of
                        Inl x \<Rightarrow> Inl x
                      | Inr suno_task_id \<Rightarrow>
                          (if \<not> truthy suno_task_id
                           then Inr ((JDict [(''error'', JStr ''Suno did not return a recognizable task id''),
                                             (''raw_response'', JDict resp_json)], 502), db)
                           else Inr ((JDict [(''message'', JStr ''Generation started''),
                                             (''task_id'', suno_task_id),
                                             (''data'', JDict [(''taskId'', suno_task_id)]),
                                             (''audio_url'', JNull)], 202),
                                     persist_song e db
                                       (Song_init p_title p_lyrics p_style p_mood p_theme suno_task_id
                                          JNull JNull processing (JStr []) JNull)))))
           | Some v \<Rightarrow> Inl (no_attribute v ''get'')))"

text \<open>\<^verbatim>\<open>generate_music\<close>. The parameter \<open>task_id\<close> of the source is ignored there and
  is left out. The test on \<open>style\<close> stands before the \<^verbatim>\<open>try\<close>, so its exception
  leaves the function; every exception after it becomes the 500 payload.\<close>

definition generate_music ::
  "config \<Rightarrow> env \<Rightarrow> json \<Rightarrow> json \<Rightarrow> json \<Rightarrow> json \<Rightarrow> json \<Rightarrow> json \<Rightarrow> bool \<Rightarrow> bool \<Rightarrow> world
     \<Rightarrow> (py_exn + json \<times> int) \<times> world" where
  "generate_music cfg e p_lyrics p_style p_title p_mood p_theme callback_url custom_mode instrumental w =
     (let title1 = py_or p_title (JStr ''Untitled'');
          mood1 = py_or p_mood (JStr []);
          theme1 = py_or p_theme (JStr []);
          callback1 = (if \<not> truthy callback_url
                       then JStr (rstrip_char CHR ''/'' (app_base_url cfg) @ ''/receive_song'')
                       else callback_url);
          payload = [(''customMode'', JBool custom_mode),
                     (''instrumental'', JBool instrumental),
                     (''prompt'', p_lyrics),
                     (''title'', title1),
                     (''mood'', mood1),
                     (''theme'', theme1),
                     (''model'', JStr ''V4_5''),
                     (''callbackUrl'', callback1)]
      in case style_included p_style of
           Inl x \<Rightarrow> (Inl x, w)
         | Inr with_style \<Rightarrow>
             (let payload1 = (if with_style then payload @ [(''style'', p_style)] else payload);
                  w1 = w\<lparr>sent := sent w @ [JDict payload1]\<rparr>
              in case generate_music_try e (songs w) p_lyrics p_style title1 mood1 theme1
                        (suno_post e (JDict payload1)) of
                   Inl x \<Rightarrow>
                     (Inr (JDict [(''error'', JStr ''Unexpected error''),
                                  (''details'', JStr (exn_str x))], 500), w1)
                 | Inr (r, db') \<Rightarrow> (Inr r, w1\<lparr>songs := db'\<rparr>)))"

text \<open>\<^verbatim>\<open>generate_song\<close> after \<^verbatim>\<open>generate_music\<close> has returned
  \<open>(response_data, status)\<close>. The branch for status 200 is kept as the source has it.\<close>

definition generate_song_finish ::
  "env \<Rightarrow> json \<Rightarrow> json \<Rightarrow> json \<Rightarrow> json \<Rightarrow> json \<Rightarrow> json \<Rightarrow> int \<Rightarrow> Song list
     \<Rightarrow> py_exn + ((json \<times> int) \<times> Song list)" where
  "generate_song_finish e p_title p_lyrics p_style p_mood p_theme response_data st db =
     (if \<not> truthy response_data
      then Inr ((JDict [(''error'', JStr ''Suno API returned no data''),
                        (''raw_response'', response_data)], 500), db)
      else (case response_data of
              JDict rd \<Rightarrow>
                (if dict_get rd ''data'' = JNull
                 then Inr ((JDict [(''error'', JStr ''Suno API returned no data''),
                                   (''raw_response'', response_data)], 500), db)
                 else (case (if truthy (dict_get rd ''task_id'') then Inr (dict_get rd ''task_id'')
                             else py_get (dict_get_default rd ''data'' (JDict [])) ''taskId'') of
                         Inl x \<Rightarrow> Inl x
                       | Inr tid \<Rightarrow>
                           (if st = 202
                            then Inr ((JDict [(''message'', JStr ''Song is still processing.''),
                                              (''task_id'', tid),
                                              (''lyrics'', p_lyrics)], 202), db)
                            else if st = 200
                            then (case (if truthy tid then Inr tid
                                        else py_get (dict_get_default rd ''data'' (JDict [])) ''taskId'') of
                                    Inl x \<Rightarrow> Inl x
                                  | Inr tid1 \<Rightarrow>
                                      (case db_query_error e of
                                         Some err \<Rightarrow> Inl (GenericException err)
                                       | None \<Rightarrow>
                                           Inr ((JDict (AList.update ''data'' (JDict [(''taskId'', tid1)])
                                                       (AList.update ''msg'' (JStr ''success'')
                                                       (AList.update ''code'' (JInt 200)
                                                       (AList.update ''lyrics'' p_lyrics rd)))), st),
                                                (case query_first db tid1 of
                                                   Some existing_song \<Rightarrow> db
                                                 | None \<Rightarrow>
                                                     (case db_commit_error e of
                                                        Some err \<Rightarrow> db
                                                      | None \<Rightarrow>
                                                          (case db_add_commit db
                                                                  (Song_init p_title p_lyrics p_style p_mood
                                                                     p_theme tid1 JNull JNull processing
                                                                     (JStr []) JNull) of
                                                             None \<Rightarrow> db
                                                           | Some db' \<Rightarrow> db'))))))
                            else Inr ((response_data, st), db))))
            | v \<Rightarrow> Inl (no_attribute v ''get'')))"

text \<open>\<^verbatim>\<open>generate_song\<close>: every exception becomes the 500 payload; what
  \<^verbatim>\<open>generate_music\<close> has already done stays done.\<close>

definition generation_failed :: "py_exn \<Rightarrow> json \<times> int" where
  "generation_failed x =
     (JDict [(''error'', JStr (''Lyrics or music generation failed: '' @ exn_str x))], 500)"

definition generate_song ::
  "config \<Rightarrow> env \<Rightarrow> json \<Rightarrow> json \<Rightarrow> json \<Rightarrow> json \<Rightarrow> json \<Rightarrow> bool \<Rightarrow> world
     \<Rightarrow> (json \<times> int) \<times> world" where
  "generate_song cfg e p_title p_theme genre p_mood p_style instrumental w =
     (case unique_title e p_title of
        Inl x \<Rightarrow> (generation_failed x, w)
      | Inr title1 \<Rightarrow>
          (case generate_lyrics e of
             Inl x \<Rightarrow> (generation_failed x, w)
           | Inr lyrics1 \<Rightarrow>
               (case generate_music cfg e lyrics1 p_style title1 p_mood p_theme JNull True instrumental w of
                  (Inl x, w1) \<Rightarrow> (generation_failed x, w1)
                | (Inr (response_data, st), w1) \<Rightarrow>
                    (case generate_song_finish e title1 lyrics1 p_style p_mood p_theme
                            response_data st (songs w1) of
                       Inl x \<Rightarrow> (generation_failed x, w1)
                     | Inr (r, db') \<Rightarrow> (r, w1\<lparr>songs := db'\<rparr>)))))"

section \<open>HTTP surface (utils/routes.py)\<close>

text \<open>A request body is what \<^verbatim>\<open>request.get_json(force=True)\<close> gives: the parsed
  document, or the text of the exception it raises.\<close>

definition create_song :: "config \<Rightarrow> env \<Rightarrow> string + json \<Rightarrow> world \<Rightarrow> (json \<times> int) \<times> world" where
  "create_song cfg e body w =
     (case body of
        Inl msg \<Rightarrow> ((JDict [(''error'', JStr msg)], 500), w)
      | Inr (JDict d) \<Rightarrow>
          (let p_title = dict_get_default d ''title'' (JStr ''Untitled'');
               genre = dict_get_default d ''genre'' (JStr ''pop'');
               p_mood = dict_get_default d ''mood'' (JStr []);
               p_theme = dict_get_default d ''theme'' (JStr []);
               p_style = dict_get_default d ''style'' genre
           in case py_lower p_style of
                Inl x \<Rightarrow> ((JDict [(''error'', JStr (exn_str x))], 500), w)
              | Inr lowered \<Rightarrow>
                  (let instrumental = (lowered = ''instrumental'');
                       style1 = (if instrumental then genre else p_style)
                   in case generate_song cfg e p_title p_theme genre p_mood style1 instrumental w of
                        ((result, st), w1) \<Rightarrow>
                          ((JDict [(''message'', JStr ''Song generation started''),
                                   (''task_id'', extract_task_id result),
                                   (''result'', result)], st), w1)))
      | Inr v \<Rightarrow> ((JDict [(''error'', JStr (exn_str (no_attribute v ''get'')))], 500), w))"

section \<open>Status reconciler\<close>

text \<open>The audio URL of a status answer: under \<open>audio_url\<close> or \<open>audioUrl\<close> in the first
  element of a non-empty \<open>data\<close> list, or in a \<open>data\<close> dict.\<close>

definition status_audio_url :: "json \<Rightarrow> py_exn + json" where
  "status_audio_url data_field =
     (case data_field of
        JList xs \<Rightarrow>
          (case xs of
             [] \<Rightarrow> Inr JNull
           | x # rest \<Rightarrow>
               (case x of
                  JDict first \<Rightarrow> Inr (py_or (dict_get first ''audio_url'') (dict_get first ''audioUrl''))
                | v \<Rightarrow> Inl (no_attribute v ''get'')))
      | JDict d \<Rightarrow> Inr (py_or (dict_get d ''audio_url'') (dict_get d ''audioUrl''))
      | _ \<Rightarrow> Inr JNull)"

text \<open>\<^verbatim>\<open>SunoMusicGenerator.check_status\<close>. Only an exception of \<^verbatim>\<open>requests\<close> is
  caught; any other one leaves the function (\<open>Inl\<close>).\<close>

definition check_status :: "env \<Rightarrow> string \<Rightarrow> py_exn + json \<times> int" where
  "check_status e p_task_id =
     (case suno_get e p_task_id of
        HttpError msg \<Rightarrow> Inr (JDict [(''error'', JStr msg)], 500)
      | HttpResponse status_code text body \<Rightarrow>
          (case body of
             None \<Rightarrow>
               Inr (JDict [(''error'', JStr ''Invalid JSON from Suno''),
                           (''raw_response'', JStr text)], status_code)
           | Some (JDict js) \<Rightarrow>
               (if status_code = 404 \<or> py_eq_int (dict_get js ''status'') 404
                then Inr (JDict [(''task_id'', JStr p_task_id),
                                 (''status'', JStr ''not_found''),
                                 (''message'', dict_get_default js ''message'' (JStr ''Task not found''))],
                          404)
                else if status_code \<noteq> 200
                        \<or> \<not> (py_eq_int (dict_get js ''code'') 200 \<or> dict_get js ''code'' = JNull)
                then Inr (JDict [(''task_id'', JStr p_task_id),
                                 (''status'', JStr ''error''),
                                 (''message'', py_or (dict_get js ''msg'')
                                                (py_or (dict_get js ''error'') (JStr ''Unknown error''))),
                                 (''raw_response'', JDict js)],
                          status_code)
                else (case status_audio_url (dict_get js ''data'') of
                        Inl x \<Rightarrow> Inl x
                      | Inr url \<Rightarrow>
                          (if truthy url
                           then Inr (JDict [(''task_id'', JStr p_task_id),
                                            (''status'', JStr ''completed''),
                                            (''audio_url'', url)], 200)
                           else Inr (JDict [(''task_id'', JStr p_task_id),
                                            (''status'', JStr ''pending'')], 202))))
           | Some v \<Rightarrow> Inl (no_attribute v ''get'')))"

text \<open>The answer of the poll route for a row.\<close>

definition status_reply :: "json \<Rightarrow> Song \<Rightarrow> json \<times> int" where
  "status_reply normalized_id song =
     (JDict [(''status'', JStr (status_value (status song))),
             (''task_id'', normalized_id),
             (''audio_url'', cloudinary_url song),
             (''lyrics'', lyrics song)],
      if truthy (cloudinary_url song) then 200 else 202)"

text \<open>\<^verbatim>\<open>GET /check_status/<task_id>\<close>.\<close>

definition check_status_route :: "env \<Rightarrow> string \<Rightarrow> world \<Rightarrow> (json \<times> int) \<times> world" where
  "check_status_route e p_task_id w =
     (case check_status e p_task_id of
        Inl x \<Rightarrow> ((JDict [(''error'', JStr (exn_str x))], 500), w)
      | Inr (JDict d, st) \<Rightarrow>
          (if st = 404 \<or> dict_get d ''error'' = JStr ''Not Found''
           then ((JDict [(''error'', JStr ''Task not found on Suno''),
                         (''task_id'', JStr p_task_id)], 404), w)
           else if st \<noteq> 200 then ((JDict d, st), w)
           else
             (let normalized_id = py_or (extract_task_id (JDict d)) (JStr p_task_id);
                  nested = (case dict_get d ''data'' of JDict dd \<Rightarrow> dd | _ \<Rightarrow> []);
                  suno_audio_url =
                    py_or (dict_get d ''audio_url'')
                   (py_or (dict_get d ''suno_url'')
                   (py_or (dict_get nested ''audio_url'')
                          (dict_get nested ''suno_url'')))
              in case db_query_error e of
                   Some err \<Rightarrow> ((JDict [(''error'', JStr err)], 500), w)
                 | None \<Rightarrow>
                     (case query_first (songs w) normalized_id of
                        None \<Rightarrow> ((JDict [(''error'', JStr ''Song not found'')], 404), w)
                      | Some song \<Rightarrow>
                          (if truthy suno_audio_url \<and> \<not> truthy (cloudinary_url song)
                           then
                             (let url = JStr (upload_to_cloudinary e suno_audio_url);
                                  song1 = song\<lparr>suno_url := suno_audio_url,
                                               cloudinary_url := url,
                                               audio_url := url,
                                               status := completed\<rparr>
                              in case db_commit_error e of
                                   Some err \<Rightarrow> ((JDict [(''error'', JStr err)], 500), w)
                                 | None \<Rightarrow>
                                     (status_reply normalized_id song1,
                                      w\<lparr>songs := db_update_commit (songs w) song1\<rparr>))
                           else (status_reply normalized_id song, w)))))
      | Inr (v, st) \<Rightarrow>
          (if st = 404
           then ((JDict [(''error'', JStr ''Task not found on Suno''),
                         (''task_id'', JStr p_task_id)], 404), w)
           else ((v, st), w)))"

text \<open>\<^verbatim>\<open>raise_for_status\<close> raises for the codes 400 to 599.\<close>

fun download_ok :: "http_result \<Rightarrow> bool" where
  "download_ok (HttpError msg) = False"
| "download_ok (HttpResponse status_code text body) = (\<not> (400 \<le> status_code \<and> status_code < 600))"

text \<open>\<^verbatim>\<open>POST /receive_song\<close>, the provider's callback. \<^verbatim>\<open>try_notify\<close> does nothing
  for a row without a \<open>webhook_url\<close> attribute, which no row has.\<close>

definition receive_song :: "env \<Rightarrow> string + json \<Rightarrow> world \<Rightarrow> (json \<times> int) \<times> world" where
  "receive_song e body w =
     (case body of
        Inl msg \<Rightarrow> ((JDict [(''error'', JStr ''Internal server error'')], 500), w)
      | Inr (JDict d) \<Rightarrow>
          (let p_task_id = dict_get d ''task_id'';
               p_audio_url = dict_get d ''audio_url''
           in if \<not> truthy p_task_id \<or> \<not> truthy p_audio_url
              then ((JDict [(''error'', JStr ''Missing task_id or audio_url'')], 400), w)
              else
                (case db_query_error e of
                   Some err \<Rightarrow> ((JDict [(''error'', JStr ''Internal server error'')], 500), w)
                 | None \<Rightarrow>
                     (case query_first (songs w) p_task_id of
                        None \<Rightarrow> ((JDict [(''error'', JStr ''Song not found'')], 404), w)
                      | Some song \<Rightarrow>
                          (if \<not> download_ok (fetch_audio e p_audio_url)
                           then ((JDict [(''error'', JStr ''Failed to download audio'')], 500), w)
                           else if upload_to_cloudinary e p_audio_url = []
                           then ((JDict [(''error'', JStr ''Cloudinary upload failed'')], 500), w)
                           else
                             (case db_commit_error e of
                                Some err \<Rightarrow> ((JDict [(''error'', JStr ''Database update failed'')], 500), w)
                              | None \<Rightarrow>
                                  ((JDict [(''message'', JStr ''Song stored successfully''),
                                           (''task_id'', p_task_id),
                                           (''cloudinary_url'', JStr (upload_to_cloudinary e p_audio_url))],
                                    200),
                                   w\<lparr>songs := db_update_commit (songs w)
                                       (song\<lparr>status := completed,
                                             suno_url := p_audio_url,
                                             cloudinary_url := JStr (upload_to_cloudinary e p_audio_url),
                                             audio_url := JStr (upload_to_cloudinary e p_audio_url)\<rparr>)\<rparr>))))))
      | Inr v \<Rightarrow> ((JDict [(''error'', JStr ''Internal server error'')], 500), w))"

section \<open>Runs of the service\<close>

text \<open>The calls that can change the table: the three routes, and the two public methods
  of the generator called directly. A run handles a list of calls, each with the answers
  of the collaborators during it, starting from the empty table.\<close>

datatype request =
    CreateSong "string + json"
  | CheckStatus string
  | ReceiveSong "string + json"
  | GenerateMusic json json json json json json bool bool
  | GenerateSong json json json json json bool

fun handle :: "config \<Rightarrow> env \<Rightarrow> request \<Rightarrow> world \<Rightarrow> world" where
  "handle cfg e (CreateSong body) w = snd (create_song cfg e body w)"
| "handle cfg e (CheckStatus p_task_id) w = snd (check_status_route e p_task_id w)"
| "handle cfg e (ReceiveSong body) w = snd (receive_song e body w)"
| "handle cfg e (GenerateMusic p_lyrics p_style p_title p_mood p_theme callback_url custom_mode instrumental) w =
     snd (generate_music cfg e p_lyrics p_style p_title p_mood p_theme callback_url custom_mode instrumental w)"
| "handle cfg e (GenerateSong p_title p_theme genre p_mood p_style instrumental) w =
     snd (generate_song cfg e p_title p_theme genre p_mood p_style instrumental w)"

definition initial_world :: world where
  "initial_world = \<lparr> songs = [], sent = [] \<rparr>"

fun run :: "config \<Rightarrow> (env \<times> request) list \<Rightarrow> world \<Rightarrow> world" where
  "run cfg [] w = w"
| "run cfg ((e, r) # rest) w = run cfg rest (handle cfg e r w)"

section \<open>One change of the table\<close>

text \<open>What a single call can do to the table: nothing, the insertion of one new row in
  state \<open>processing\<close> without URLs, or the reconciliation of the row found for a task
  id (both URL fields set to the same value, status \<open>completed\<close>).\<close>

inductive table_step :: "Song list \<Rightarrow> Song list \<Rightarrow> bool" where
  unchanged: "table_step db db"
| inserted: "task_id s \<notin> set (map task_id db) \<Longrightarrow> task_id s \<noteq> JNull \<Longrightarrow> status s = processing \<Longrightarrow>
     audio_url s = JNull \<Longrightarrow> cloudinary_url s = JNull \<Longrightarrow> error_message s = JNull \<Longrightarrow>
     table_step db (db @ [s\<lparr>song_id := next_id db\<rparr>])"
| reconciled: "query_first db tid = Some song \<Longrightarrow>
     table_step db (db_update_commit db
        (song\<lparr>status := completed, suno_url := u, cloudinary_url := c, audio_url := c\<rparr>))"

section \<open>A scenario\<close>

text \<open>Concrete collaborators for the examples below: the provider accepts a submission
  with task id \<open>abc\<close> and, polled, reports the rendered audio; the download and the
  upload succeed; the database works.\<close>

definition example_cfg :: config where
  "example_cfg = \<lparr> app_base_url = ''http://localhost:5000'' \<rparr>"

definition accepted_response :: json where
  "accepted_response =
     JDict [(''code'', JInt 200), (''msg'', JStr ''success''),
            (''data'', JDict [(''taskId'', JStr ''abc'')])]"

definition rendered_response :: json where
  "rendered_response =
     JDict [(''code'', JInt 200),
            (''data'', JDict [(''audio_url'', JStr ''https://cdn.suno.example/x.mp3'')])]"

definition example_env :: env where
  "example_env =
     \<lparr> unique_suffix = ''20250101_120000_0a1b2c3d'',
       gemini = Inr ''la la la'',
       suno_post = (\<lambda>payload. HttpResponse 200 ''ok'' (Some accepted_response)),
       suno_get = (\<lambda>p_task_id. HttpResponse 200 ''ok'' (Some rendered_response)),
       fetch_audio = (\<lambda>url. HttpResponse 200 ''mp3'' None),
       upload_to_cloudinary = (\<lambda>url. ''https://res.cloudinary.com/demo/a.mp3''),
       db_query_error = None,
       db_commit_error = None \<rparr>"

text \<open>The request bodies of the scenario.\<close>

definition instrumental_body :: json where
  "instrumental_body = JDict [(''style'', JStr ''instrumental''), (''genre'', JStr ''lofi'')]"

definition callback_body :: json where
  "callback_body =
     JDict [(''task_id'', JStr ''abc''), (''audio_url'', JStr ''https://cdn.suno.example/x.mp3'')]"

text \<open>The table after \<^verbatim>\<open>POST /create_song\<close> with the instrumental body.\<close>

definition created_world :: world where
  "created_world = snd (create_song example_cfg example_env (Inr instrumental_body) initial_world)"

text \<open>A run: the song is requested, the provider calls back, the client polls.\<close>

definition example_run :: "(env \<times> request) list" where
  "example_run =
     [(example_env, CreateSong (Inr instrumental_body)),
      (example_env, ReceiveSong (Inr callback_body)),
      (example_env, CheckStatus ''abc'')]"


text \<open>The world after the provider's callback for \<open>abc\<close>, and collaborators whose storage
  provider names the next upload differently.\<close>

definition completed_world :: world where
  "completed_world = snd (receive_song example_env (Inr callback_body) created_world)"

definition second_upload_env :: env where
  "second_upload_env =
     example_env\<lparr>upload_to_cloudinary := (\<lambda>url. ''https://res.cloudinary.com/demo/b.mp3'')\<rparr>"

text \<open>A provider that accepts the submission and names the task under \<open>id\<close> in a
  \<open>data\<close> object; a storage provider whose upload fails; a provider that answers a status
  query with 404 and a page that is not JSON, or with 404 and a JSON list.\<close>

definition id_only_response :: json where
  "id_only_response = JDict [(''code'', JInt 200), (''data'', JDict [(''id'', JStr ''abc'')])]"

definition id_only_env :: env where
  "id_only_env = example_env\<lparr>suno_post := (\<lambda>payload. HttpResponse 200 ''ok'' (Some id_only_response))\<rparr>"

definition failed_upload_env :: env where
  "failed_upload_env = example_env\<lparr>upload_to_cloudinary := (\<lambda>url. [])\<rparr>"

definition not_json_404_env :: env where
  "not_json_404_env =
     example_env\<lparr>suno_get := (\<lambda>p_task_id. HttpResponse 404 ''<html>Not Found</html>'' None)\<rparr>"

definition json_list_404_env :: env where
  "json_list_404_env =
     example_env\<lparr>suno_get := (\<lambda>p_task_id. HttpResponse 404 ''[]'' (Some (JList [])))\<rparr>"

section \<open>The specification's words\<close>

text \<open>The lifecycle of the specification: the moves a status may make.\<close>

fun status_move :: "SongStatus \<Rightarrow> SongStatus \<Rightarrow> bool" where
  "status_move pending processing = True"
| "status_move processing completed = True"
| "status_move processing failed = True"
| "status_move a b = False"

text \<open>An audio URL is present when \<open>data\<close> is an object, or a list that starts with an
  object, and that object has a non-empty \<open>audio_url\<close> or \<open>audioUrl\<close>.\<close>

definition audio_present :: "json \<Rightarrow> bool" where
  "audio_present data_field =
     (case data_field of
        JDict d \<Rightarrow> truthy (dict_get d ''audio_url'') \<or> truthy (dict_get d ''audioUrl'')
      | JList xs \<Rightarrow>
          (case xs of
             JDict first # rest \<Rightarrow>
               truthy (dict_get first ''audio_url'') \<or> truthy (dict_get first ''audioUrl'')
           | _ \<Rightarrow> False)
      | _ \<Rightarrow> False)"

text \<open>The shapes of \<open>data\<close> on which the lookup of the audio URL is defined: anything but
  a list that starts with a value that is not an object.\<close>

definition first_is_object :: "json \<Rightarrow> bool" where
  "first_is_object data_field =
     (case data_field of
        JList xs \<Rightarrow> (case xs of [] \<Rightarrow> True | JDict first # rest \<Rightarrow> True | _ \<Rightarrow> False)
      | _ \<Rightarrow> True)"

section \<open>Every call makes one change of the table\<close>

lemma query_first_None: "query_first db tid = None \<longleftrightarrow> tid \<notin> set (map task_id db)"
  by (auto simp: query_first_def find_None_iff)

lemma query_first_Some: "query_first db tid = Some s \<Longrightarrow> s \<in> set db \<and> task_id s = tid"
  unfolding query_first_def by (auto simp: find_Some_iff)

lemma Song_init_fields:
  "task_id (Song_init a b c d f tid su cu st ar du) = tid"
  "status (Song_init a b c d f tid su cu st ar du) = st"
  "audio_url (Song_init a b c d f tid su cu st ar du) = JNull"
  "cloudinary_url (Song_init a b c d f tid su cu st ar du) = cu"
  "error_message (Song_init a b c d f tid su cu st ar du) = JNull"
  by (simp_all add: Song_init_def)

lemma persist_song_step:
  "status s = processing \<Longrightarrow> audio_url s = JNull \<Longrightarrow> cloudinary_url s = JNull \<Longrightarrow>
   error_message s = JNull \<Longrightarrow> table_step db (persist_song e db s)"
  by (auto simp: persist_song_def db_add_commit_def query_first_None
      intro: table_step.intros split: option.splits)

lemma generate_music_try_step:
  "generate_music_try e db l s t m th resp = Inr (r, db') \<Longrightarrow> table_step db db'"
  by (auto simp: generate_music_try_def Song_init_fields
      intro: table_step.unchanged persist_song_step
      split: http_result.splits option.splits json.splits if_splits sum.splits)

lemma generate_music_step:
  "table_step (songs w) (songs (snd (generate_music cfg e l s t m th cb cm ins w)))"
  by (auto simp: generate_music_def Let_def intro: table_step.unchanged
      dest: generate_music_try_step split: sum.splits prod.splits)

lemma generate_song_finish_step:
  "generate_song_finish e t l s m th rd st db = Inr (r, db') \<Longrightarrow> table_step db db'"
  by (auto simp: generate_song_finish_def Song_init_fields db_add_commit_def query_first_None
      intro: table_step.intros
      split: option.splits json.splits if_splits sum.splits)


lemma generate_music_try_status:
  "generate_music_try e db l s t m th resp = Inr ((rd, st), db') \<Longrightarrow> st = 202 \<or> st = 502"
  by (auto simp: generate_music_try_def
      split: http_result.splits option.splits json.splits if_splits sum.splits)

lemma generate_music_status:
  "generate_music cfg e l s t m th cb cm ins w = (Inr (rd, st), w1) \<Longrightarrow> st \<noteq> 200"
  by (auto simp: generate_music_def Let_def dest: generate_music_try_status
      split: sum.splits prod.splits)

lemma generate_song_finish_not_200:
  "generate_song_finish e t l s m th rd st db = Inr (r, db') \<Longrightarrow> st \<noteq> 200 \<Longrightarrow> db' = db"
  by (auto simp: generate_song_finish_def split: json.splits if_splits sum.splits)

lemma generate_song_step:
  "table_step (songs w) (songs (snd (generate_song cfg e t th g m s ins w)))"
proof -
  have gm: "table_step (songs w) (songs (snd (generate_music cfg e l s t1 m th JNull True ins w)))" for l t1
    by (rule generate_music_step)
  show ?thesis
  proof (cases "unique_title e t")
    case (Inl x)
    then show ?thesis by (simp add: generate_song_def table_step.unchanged)
  next
    case t1: (Inr title1)
    show ?thesis
    proof (cases "generate_lyrics e")
      case (Inl x)
      with t1 show ?thesis by (simp add: generate_song_def table_step.unchanged)
    next
      case l1: (Inr lyrics1)
      obtain res w1 where g: "generate_music cfg e lyrics1 s title1 m th JNull True ins w = (res, w1)"
        by (cases "generate_music cfg e lyrics1 s title1 m th JNull True ins w")
      have s1: "table_step (songs w) (songs w1)"
        using gm[of lyrics1 title1] g by simp
      show ?thesis
      proof (cases res)
        case (Inl x)
        with t1 l1 g s1 show ?thesis by (simp add: generate_song_def)
      next
        case (Inr rs)
        obtain rd st where rs: "rs = (rd, st)" by (cases rs)
        show ?thesis
        proof (cases "generate_song_finish e title1 lyrics1 s m th rd st (songs w1)")
          case (Inl x)
          with t1 l1 g s1 Inr rs show ?thesis by (simp add: generate_song_def)
        next
          case fin: (Inr q)
          obtain r db' where q: "q = (r, db')" by (cases q)
          have "st \<noteq> 200"
            using g Inr rs generate_music_status by blast
          then have s2: "db' = songs w1"
            using fin q generate_song_finish_not_200 by blast
          have "songs (snd (generate_song cfg e t th g m s ins w)) = db'"
            using t1 l1 g Inr rs fin q by (simp add: generate_song_def)
          then show ?thesis using s1 s2 by simp
        qed
      qed
    qed
  qed
qed

lemma create_song_step:
  "table_step (songs w) (songs (snd (create_song cfg e body w)))"
  by (simp add: create_song_def Let_def case_prod_beta generate_song_step table_step.unchanged
      split: sum.splits json.splits)

lemma reconciled_poll:
  assumes "query_first db tid = Some song"
  shows "table_step db (db_update_commit db
           (song\<lparr>suno_url := u, cloudinary_url := c, audio_url := c, status := completed\<rparr>))"
proof -
  have eq: "song\<lparr>suno_url := u, cloudinary_url := c, audio_url := c, status := completed\<rparr>
        = song\<lparr>status := completed, suno_url := u, cloudinary_url := c, audio_url := c\<rparr>"
    by simp
  show ?thesis unfolding eq by (rule table_step.reconciled[OF assms])
qed

lemma check_status_route_step:
  "table_step (songs w) (songs (snd (check_status_route e tid w)))"
proof (cases "check_status e tid")
  case (Inl x)
  then show ?thesis by (simp add: check_status_route_def table_step.unchanged)
next
  case (Inr p)
  obtain v st where p: "p = (v, st)" by (cases p)
  show ?thesis
  proof (cases v)
    case (JDict d)
    with Inr p show ?thesis
      unfolding check_status_route_def Let_def
      by (auto intro: table_step.unchanged reconciled_poll split: option.splits
          simp del: extract_task_id.simps)
  qed (use Inr p in \<open>simp_all add: check_status_route_def table_step.unchanged\<close>)
qed

lemma receive_song_step:
  "table_step (songs w) (songs (snd (receive_song e body w)))"
proof (cases body)
  case (Inl m)
  then show ?thesis by (simp add: receive_song_def table_step.unchanged)
next
  case (Inr v)
  show ?thesis
  proof (cases v)
    case (JDict d)
    with Inr show ?thesis
      unfolding receive_song_def Let_def
      by (auto intro: table_step.unchanged table_step.reconciled split: option.splits)
  qed (use Inr in \<open>simp_all add: receive_song_def table_step.unchanged\<close>)
qed

lemma handle_step: "table_step (songs w) (songs (handle cfg e r w))"
  by (cases r) (simp_all add: create_song_step check_status_route_step receive_song_step
      generate_music_step generate_song_step)

section \<open>What one change preserves\<close>

lemma update_commit_set:
  "x \<in> set (db_update_commit db s) \<Longrightarrow> x \<in> set db \<or> x = s"
  by (auto simp: db_update_commit_def)

lemma step_mirror:
  assumes "table_step db db'" and "\<forall>s\<in>set db. audio_url s = cloudinary_url s"
  shows "\<forall>s\<in>set db'. audio_url s = cloudinary_url s"
  using assms
proof (cases rule: table_step.cases)
  case (reconciled tid song c u)
  then show ?thesis using assms(2) by (auto dest!: update_commit_set)
qed auto

lemma step_never_failed:
  assumes "table_step db db'"
    and "\<forall>s\<in>set db. (status s = processing \<or> status s = completed) \<and> error_message s = JNull"
  shows "\<forall>s\<in>set db'. (status s = processing \<or> status s = completed) \<and> error_message s = JNull"
  using assms
proof (cases rule: table_step.cases)
  case (reconciled tid song c u)
  then show ?thesis using assms(2) by (auto dest!: update_commit_set query_first_Some)
qed auto

lemma step_url_completed:
  assumes "table_step db db'"
    and "\<forall>s\<in>set db. cloudinary_url s \<noteq> JNull \<longrightarrow> status s = completed"
  shows "\<forall>s\<in>set db'. cloudinary_url s \<noteq> JNull \<longrightarrow> status s = completed"
  using assms
proof (cases rule: table_step.cases)
  case (reconciled tid song c u)
  then show ?thesis using assms(2) by (auto dest!: update_commit_set)
qed auto

lemma step_rows:
  assumes "table_step db db'" and "i < length db"
  shows "i < length db' \<and> song_id (db' ! i) = song_id (db ! i)
         \<and> (db' ! i = db ! i \<or> status (db' ! i) = completed)"
  using assms
proof (cases rule: table_step.cases)
  case (reconciled tid song c u)
  have "song \<in> set db" using reconciled(2) query_first_Some by blast
  then show ?thesis using assms(2) reconciled
    by (auto simp: db_update_commit_def dest: query_first_Some)
next
  case (inserted s)
  then show ?thesis using assms(2) by (simp add: nth_append)
qed simp

lemma step_new_row:
  assumes "table_step db db'" and "length db \<le> i" and "i < length db'"
  shows "status (db' ! i) = processing \<and> error_message (db' ! i) = JNull
         \<and> audio_url (db' ! i) = JNull \<and> cloudinary_url (db' ! i) = JNull"
  using assms
proof (cases rule: table_step.cases)
  case (inserted s)
  then show ?thesis using assms(2,3) by (auto simp: nth_append)
qed (auto simp: db_update_commit_def)

lemma next_id_fresh: "x \<in> set db \<Longrightarrow> song_id x < next_id db"
proof -
  assume "x \<in> set db"
  then have "song_id x \<in> set (0 # map song_id db)" by simp
  then have "song_id x \<le> Max (set (0 # map song_id db))" by (intro Max_ge) auto
  moreover have "fold max (map song_id db) 0 = Max (set (0 # map song_id db))"
    by (simp only: Max.set_eq_fold)
  ultimately show ?thesis by (simp add: next_id_def)
qed

lemma step_keys:
  assumes "table_step db db'" and "distinct (map song_id db)" and "distinct (map task_id db)"
  shows "distinct (map song_id db') \<and> distinct (map task_id db')"
  using assms
proof (cases rule: table_step.cases)
  case (inserted s)
  have "next_id db \<notin> song_id ` set db" using next_id_fresh by fastforce
  with inserted assms(2,3) show ?thesis by auto
next
  case (reconciled tid song c u)
  let ?s = "song\<lparr>status := completed, suno_url := u, cloudinary_url := c, audio_url := c\<rparr>"
  have mem: "song \<in> set db" using reconciled(2) query_first_Some by blast
  have same: "x = song" if "x \<in> set db" "song_id x = song_id song" for x
    using that mem assms(2) by (meson distinct_map inj_onD)
  have "map song_id (db_update_commit db ?s) = map song_id db"
    by (simp add: db_update_commit_def)
  moreover have "map task_id (db_update_commit db ?s) = map task_id db"
    using same by (auto simp: db_update_commit_def)
  ultimately show ?thesis using reconciled assms by simp
qed simp

section \<open>Task id extraction\<close>

lemma find_append_first:
  "List.find P (xs @ ys) = (case List.find P xs of Some x \<Rightarrow> Some x | None \<Rightarrow> List.find P ys)"
  by (induction xs) auto

lemma probe_keys_find: "probe_keys ks d = List.find truthy (map (dict_get d) ks)"
  by (induction ks) auto

lemma probe_candidates_find:
  "probe_candidates cs =
     List.find truthy (concat (map (\<lambda>d. map (dict_get d) task_id_keys)
        (concat (map (\<lambda>c. case c of JDict cd \<Rightarrow> [cd] | _ \<Rightarrow> []) cs))))"
proof (induction cs rule: probe_candidates.induct)
  case 1
  then show ?case by simp
next
  case (2 c cs)
  then show ?case by (simp add: find_append_first probe_keys_find split: option.splits)
qed simp_all

lemma extract_task_id_refines: "extract_task_id v = ordered_probe_spec v"
proof (cases v)
  case (JDict item)
  show ?thesis
  proof (cases "item = []")
    case True
    with JDict show ?thesis
      by (simp add: ordered_probe_spec_def probe_places_def dict_get_def task_id_keys_def)
  next
    case False
    with JDict show ?thesis
      by (simp add: ordered_probe_spec_def probe_places_def extract_data_dict_def
          extract_data_list_def extract_meta_def find_append_first probe_keys_find
          probe_candidates_find split: option.splits json.splits)
  qed
qed (simp_all add: ordered_probe_spec_def)

text \<open>
  Claim C5. \<open>extract_task_id\<close> probes, in this order, the keys \<open>id\<close>, \<open>task_id\<close>,
  \<open>taskId\<close>, \<open>taskID\<close> of the mapping itself, of a nested \<open>data\<close> object, of each
  element of a nested \<open>data\<close> list and of a nested \<open>metadata\<close> object, and returns the
  first non-empty value or \<^verbatim>\<open>None\<close>: it computes what the ordered probe of the
  specification computes, on every value. It returns \<open>abc\<close> on the four shapes of the
  specification, and \<^verbatim>\<open>None\<close> on the empty mapping and on \<^verbatim>\<open>None\<close>.
\<close>

theorem extract_task_id_ordered_probe:
  "extract_task_id v = ordered_probe_spec v
   \<and> extract_task_id (JDict [(''data'', JDict [(''taskId'', JStr ''abc'')])]) = JStr ''abc''
   \<and> extract_task_id (JDict [(''task_id'', JStr ''abc'')]) = JStr ''abc''
   \<and> extract_task_id (JDict [(''data'', JList [JDict [(''id'', JStr ''abc'')]])]) = JStr ''abc''
   \<and> extract_task_id (JDict [(''metadata'', JDict [(''taskId'', JStr ''abc'')])]) = JStr ''abc''
   \<and> extract_task_id (JDict []) = JNull
   \<and> extract_task_id JNull = JNull"
proof -
  have e1: "extract_task_id (JDict [(''data'', JDict [(''taskId'', JStr ''abc'')])]) = JStr ''abc''"
    by (simp add: task_id_keys_def dict_get_def extract_data_dict_def)
  have e2: "extract_task_id (JDict [(''task_id'', JStr ''abc'')]) = JStr ''abc''"
    by (simp add: task_id_keys_def dict_get_def)
  have e3: "extract_task_id (JDict [(''data'', JList [JDict [(''id'', JStr ''abc'')]])]) = JStr ''abc''"
    by (simp add: task_id_keys_def dict_get_def extract_data_dict_def extract_data_list_def)
  have e4: "extract_task_id (JDict [(''metadata'', JDict [(''taskId'', JStr ''abc'')])]) = JStr ''abc''"
    by (simp add: task_id_keys_def dict_get_def extract_data_dict_def extract_data_list_def
        extract_meta_def)
  have e5: "extract_task_id (JDict []) = JNull" and e6: "extract_task_id JNull = JNull"
    by simp_all
  show ?thesis
    by (intro conjI extract_task_id_refines e1 e2 e3 e4 e5 e6)
qed

section \<open>Invariants of the table\<close>

lemma run_mirror:
  "\<forall>s\<in>set (songs w). audio_url s = cloudinary_url s \<Longrightarrow>
   \<forall>s\<in>set (songs (run cfg ops w)). audio_url s = cloudinary_url s"
proof (induction ops arbitrary: w)
  case Nil
  then show ?case by simp
next
  case (Cons a ops)
  obtain e r where a: "a = (e, r)" by (cases a)
  have "\<forall>s\<in>set (songs (handle cfg e r w)). audio_url s = cloudinary_url s"
    by (rule step_mirror[OF handle_step Cons.prems])
  then show ?case unfolding a run.simps by (rule Cons.IH)
qed

lemma run_never_failed:
  "\<forall>s\<in>set (songs w). (status s = processing \<or> status s = completed) \<and> error_message s = JNull \<Longrightarrow>
   \<forall>s\<in>set (songs (run cfg ops w)). (status s = processing \<or> status s = completed) \<and> error_message s = JNull"
proof (induction ops arbitrary: w)
  case Nil
  then show ?case by simp
next
  case (Cons a ops)
  obtain e r where a: "a = (e, r)" by (cases a)
  have "\<forall>s\<in>set (songs (handle cfg e r w)). (status s = processing \<or> status s = completed) \<and> error_message s = JNull"
    by (rule step_never_failed[OF handle_step Cons.prems])
  then show ?case unfolding a run.simps by (rule Cons.IH)
qed

lemma run_url_completed:
  "\<forall>s\<in>set (songs w). cloudinary_url s \<noteq> JNull \<longrightarrow> status s = completed \<Longrightarrow>
   \<forall>s\<in>set (songs (run cfg ops w)). cloudinary_url s \<noteq> JNull \<longrightarrow> status s = completed"
proof (induction ops arbitrary: w)
  case Nil
  then show ?case by simp
next
  case (Cons a ops)
  obtain e r where a: "a = (e, r)" by (cases a)
  have "\<forall>s\<in>set (songs (handle cfg e r w)). cloudinary_url s \<noteq> JNull \<longrightarrow> status s = completed"
    by (rule step_url_completed[OF handle_step Cons.prems])
  then show ?case unfolding a run.simps by (rule Cons.IH)
qed

lemma run_keys:
  "distinct (map song_id (songs w)) \<and> distinct (map task_id (songs w)) \<Longrightarrow>
   distinct (map song_id (songs (run cfg ops w))) \<and> distinct (map task_id (songs (run cfg ops w)))"
proof (induction ops arbitrary: w)
  case Nil
  then show ?case by simp
next
  case (Cons a ops)
  obtain e r where a: "a = (e, r)" by (cases a)
  have "distinct (map song_id (songs (handle cfg e r w))) \<and> distinct (map task_id (songs (handle cfg e r w)))"
    using Cons.prems by (intro step_keys[OF handle_step]) simp_all
  then show ?case unfolding a run.simps by (rule Cons.IH)
qed

text \<open>
  Claim C4. In every row of the table, \<open>audio_url\<close> equals \<open>cloudinary_url\<close>, after
  any number of calls of any kind (insert at creation, update on a poll, update on a
  callback): calls keep the equality in every row of a table that had it, and the empty
  table has it.
\<close>

theorem audio_url_mirrors_cloudinary_url:
  "list_all (\<lambda>s. audio_url s = cloudinary_url s) (songs w) \<Longrightarrow>
   list_all (\<lambda>s. audio_url s = cloudinary_url s) (songs (run cfg ops w))"
  using run_mirror[of w cfg ops] by (simp add: list_all_iff)

text \<open>The table at the end of the example run.\<close>

lemma example_run_table:
  "songs (run example_cfg example_run initial_world) =
     [\<lparr>song_id = 1, task_id = JStr ''abc'',
       title = JStr ''Untitled_20250101_120000_0a1b2c3d'',
       lyrics = JStr ''la la la'', style = JStr ''lofi'',
       mood = JStr [], theme = JStr [], artist_name = JStr [],
       audio_url = JStr ''https://res.cloudinary.com/demo/a.mp3'',
       suno_url = JStr ''https://cdn.suno.example/x.mp3'',
       cloudinary_url = JStr ''https://res.cloudinary.com/demo/a.mp3'',
       status = completed, retry_count = 0, error_message = JNull,
       duration = JNull\<rparr>]"
  by code_simp

theorem audio_url_mirrors_cloudinary_url_witness:
  "list_all (\<lambda>s. audio_url s = cloudinary_url s) (songs initial_world)
   \<and> list_all (\<lambda>s. audio_url s = cloudinary_url s) (songs (run example_cfg example_run initial_world))
   \<and> map cloudinary_url (songs (run example_cfg example_run initial_world))
       = [JStr ''https://res.cloudinary.com/demo/a.mp3'']"
proof -
  have h: "list_all (\<lambda>s. audio_url s = cloudinary_url s) (songs initial_world)"
    by (simp add: initial_world_def)
  show ?thesis
    using h audio_url_mirrors_cloudinary_url[OF h, of example_cfg example_run]
    by (simp add: example_run_table)
qed

text \<open>
  Claim C10. No call assigns the status \<open>failed\<close> or writes \<open>error_message\<close>: in every
  table reached from the empty one, every row has a status among \<open>pending\<close>,
  \<open>processing\<close>, \<open>completed\<close>, never \<open>failed\<close>, and its \<open>error_message\<close> is null.
\<close>

theorem failed_state_unreachable:
  "list_all (\<lambda>s. (status s = pending \<or> status s = processing \<or> status s = completed)
                  \<and> status s \<noteq> failed \<and> error_message s = JNull)
            (songs (run cfg ops initial_world))"
proof -
  have "\<forall>s\<in>set (songs initial_world).
          (status s = processing \<or> status s = completed) \<and> error_message s = JNull"
    by (simp add: initial_world_def)
  from run_never_failed[OF this, of cfg ops] show ?thesis
    by (auto simp: list_all_iff)
qed

section \<open>The lifecycle of a status\<close>

lemma initial_rows_started:
  "\<forall>s\<in>set (songs initial_world). (status s = processing \<or> status s = completed) \<and> error_message s = JNull"
  by (simp add: initial_world_def)

text \<open>
  Claim C2. Whatever call is handled (creation with its insert, a poll with its update,
  a callback with its update): a row stays in the table under its key, and a row
  whose status is \<open>completed\<close> keeps that status; in a table reached from the empty one,
  the status of a row either stays or makes a move of the lifecycle
  \<open>pending \<rightarrow> processing \<rightarrow> {completed, failed}\<close>; a row the call adds starts as
  \<open>processing\<close>.
\<close>

theorem status_moves_forward:
  "(i < length (songs w) \<longrightarrow>
      i < length (songs (handle cfg e r w))
      \<and> song_id (songs (handle cfg e r w) ! i) = song_id (songs w ! i)
      \<and> (status (songs w ! i) = completed \<longrightarrow> status (songs (handle cfg e r w) ! i) = completed))
   \<and> (i < length (songs (run cfg ops initial_world)) \<longrightarrow>
        status (songs (handle cfg e r (run cfg ops initial_world)) ! i)
          = status (songs (run cfg ops initial_world) ! i)
        \<or> status_move (status (songs (run cfg ops initial_world) ! i))
             (status (songs (handle cfg e r (run cfg ops initial_world)) ! i)))
   \<and> (length (songs w) \<le> i \<and> i < length (songs (handle cfg e r w)) \<longrightarrow>
        status (songs (handle cfg e r w) ! i) = processing)"
proof (intro conjI impI)
  assume i: "i < length (songs w)"
  from step_rows[OF handle_step i, of cfg e r]
  show "i < length (songs (handle cfg e r w))"
    and "song_id (songs (handle cfg e r w) ! i) = song_id (songs w ! i)"
    by simp_all
  assume "status (songs w ! i) = completed"
  with step_rows[OF handle_step i, of cfg e r]
  show "status (songs (handle cfg e r w) ! i) = completed"
    by auto
next
  let ?v = "run cfg ops initial_world"
  assume i: "i < length (songs ?v)"
  then have "songs ?v ! i \<in> set (songs ?v)" by simp
  then have st: "status (songs ?v ! i) = processing \<or> status (songs ?v ! i) = completed"
    using run_never_failed[OF initial_rows_started, of cfg ops] by blast
  from step_rows[OF handle_step i, of cfg e r] st
  show "status (songs (handle cfg e r ?v) ! i) = status (songs ?v ! i)
        \<or> status_move (status (songs ?v ! i)) (status (songs (handle cfg e r ?v) ! i))"
    by auto
next
  assume "length (songs w) \<le> i \<and> i < length (songs (handle cfg e r w))"
  then show "status (songs (handle cfg e r w) ! i) = processing"
    using step_new_row[OF handle_step, of w i cfg e r] by simp
qed

text \<open>The example: the row after creation, and after the callback.\<close>

lemma created_world_table:
  "songs created_world =
     [\<lparr>song_id = 1, task_id = JStr ''abc'',
       title = JStr ''Untitled_20250101_120000_0a1b2c3d'',
       lyrics = JStr ''la la la'', style = JStr ''lofi'',
       mood = JStr [], theme = JStr [], artist_name = JStr [],
       audio_url = JNull, suno_url = JNull, cloudinary_url = JNull,
       status = processing, retry_count = 0, error_message = JNull,
       duration = JNull\<rparr>]"
  by code_simp

lemma created_world_run:
  "created_world = run example_cfg [(example_env, CreateSong (Inr instrumental_body))] initial_world"
  by (simp add: created_world_def)

lemma callback_table:
  "songs (handle example_cfg example_env (ReceiveSong (Inr callback_body)) created_world) =
     [\<lparr>song_id = 1, task_id = JStr ''abc'',
       title = JStr ''Untitled_20250101_120000_0a1b2c3d'',
       lyrics = JStr ''la la la'', style = JStr ''lofi'',
       mood = JStr [], theme = JStr [], artist_name = JStr [],
       audio_url = JStr ''https://res.cloudinary.com/demo/a.mp3'',
       suno_url = JStr ''https://cdn.suno.example/x.mp3'',
       cloudinary_url = JStr ''https://res.cloudinary.com/demo/a.mp3'',
       status = completed, retry_count = 0, error_message = JNull,
       duration = JNull\<rparr>]"
  by code_simp

theorem status_moves_forward_witness:
  "(0::nat) < length (songs created_world)
   \<and> status (songs created_world ! 0) = processing
   \<and> status (songs (handle example_cfg example_env (ReceiveSong (Inr callback_body)) created_world) ! 0)
       = completed
   \<and> status_move (status (songs created_world ! 0))
        (status (songs (handle example_cfg example_env (ReceiveSong (Inr callback_body)) created_world) ! 0))
   \<and> length (songs initial_world) \<le> 0
   \<and> status (songs (handle example_cfg example_env (CreateSong (Inr instrumental_body)) initial_world) ! 0)
       = processing"
proof -
  have h1: "created_world = run example_cfg [(example_env, CreateSong (Inr instrumental_body))] initial_world"
    by (rule created_world_run)
  have h2: "(0::nat) < length (songs created_world)"
    by (simp add: created_world_table)
  have h3: "handle example_cfg example_env (CreateSong (Inr instrumental_body)) initial_world = created_world"
    by (simp add: created_world_def)
  have h4: "length (songs initial_world) \<le> 0"
    by (simp add: initial_world_def)
  show ?thesis
    using h2 h4
      status_moves_forward[of 0 created_world example_cfg example_env "ReceiveSong (Inr callback_body)"
        "[(example_env, CreateSong (Inr instrumental_body))]"]
      status_moves_forward[of 0 initial_world example_cfg example_env "CreateSong (Inr instrumental_body)" "[]"]
    unfolding h1[symmetric] h3
    by (simp add: created_world_table callback_table del: handle.simps)
qed

section \<open>Insert if absent\<close>

lemma generate_music_try_accepted:
  assumes "generate_music_try e db l s t m th resp = Inr ((JDict out, 202), db')"
  shows "truthy (dict_get out ''task_id'')
         \<and> db' = persist_song e db
                  (Song_init t l s m th (dict_get out ''task_id'') JNull JNull processing (JStr []) JNull)"
  using assms
  by (auto simp: generate_music_try_def dict_get_def
      split: http_result.splits option.splits json.splits if_splits sum.splits)

lemma generate_music_accepted:
  assumes "generate_music cfg e l s t m th cb cm ins w = (Inr (JDict out, 202), w')"
  shows "truthy (dict_get out ''task_id'')
         \<and> songs w' = persist_song e (songs w)
                  (Song_init (py_or t (JStr ''Untitled'')) l s (py_or m (JStr [])) (py_or th (JStr []))
                     (dict_get out ''task_id'') JNull JNull processing (JStr []) JNull)"
proof (cases "style_included s")
  case (Inl x)
  with assms show ?thesis by (simp add: generate_music_def Let_def)
next
  case (Inr b)
  with assms show ?thesis
    by (auto simp: generate_music_def Let_def dest!: generate_music_try_accepted
        split: sum.splits prod.splits if_splits)
qed

lemma persist_song_keys:
  "distinct (map task_id db) \<Longrightarrow> distinct (map task_id (persist_song e db s))"
  by (auto simp: persist_song_def db_add_commit_def query_first_None split: option.splits)

lemma task_id_listed:
  assumes "x \<in> set db" and "task_id x = T"
  shows "T \<in> set (map task_id db)"
proof -
  have "task_id x \<in> task_id ` set db" using assms(1) by (rule imageI)
  then show ?thesis using assms(2) by simp
qed

lemma persist_song_present:
  assumes "db_query_error e = None" and "db_commit_error e = None" and "task_id s \<noteq> JNull"
  shows "task_id s \<in> set (map task_id (persist_song e db s))"
proof (cases "query_first db (task_id s)")
  case None
  then have "task_id s \<notin> set (map task_id db)" by (simp add: query_first_None)
  with assms None show ?thesis by (simp add: persist_song_def db_add_commit_def)
next
  case (Some x)
  then have "task_id s \<in> set (map task_id db)"
    using query_first_Some task_id_listed by blast
  with assms Some show ?thesis by (simp add: persist_song_def)
qed

lemma persist_song_again:
  "task_id s \<in> set (map task_id db) \<Longrightarrow> persist_song e db s = db"
  by (auto simp: persist_song_def query_first_None split: option.splits)

lemma rows_of_task_le: "distinct (map task_id db) \<Longrightarrow> length (filter (\<lambda>x. task_id x = T) db) \<le> 1"
proof (induction db)
  case (Cons a db)
  then show ?case by (auto simp: filter_empty_conv image_iff)
qed simp

lemma rows_of_task_pos: "T \<in> set (map task_id db) \<Longrightarrow> 0 < length (filter (\<lambda>x. task_id x = T) db)"
  by (induction db) auto

text \<open>
  Claim C1, amended. When \<open>generate_music\<close> accepts a submission (it answers 202 with
  task id \<open>T\<close>) on a table without duplicate task ids, the table has at most one row
  with task id \<open>T\<close> afterwards, and exactly one when neither the query nor the commit of
  the insert-if-absent step fails. The step run again for the same \<open>T\<close>, with any
  outcome of the database, never makes a second row, and changes nothing once the row
  exists.
\<close>

theorem generate_music_insert_if_absent:
  assumes "distinct (map task_id (songs w))"
    and "generate_music cfg e p_lyrics p_style p_title p_mood p_theme callback_url custom_mode
           instrumental w = (Inr (JDict out, 202), w')"
  shows "length (filter (\<lambda>x. task_id x = dict_get out ''task_id'') (songs w')) \<le> 1
       \<and> (db_query_error e = None \<and> db_commit_error e = None \<longrightarrow>
            length (filter (\<lambda>x. task_id x = dict_get out ''task_id'') (songs w')) = 1)
       \<and> (task_id s2 = dict_get out ''task_id'' \<longrightarrow>
            length (filter (\<lambda>x. task_id x = dict_get out ''task_id'')
                      (persist_song e2 (songs w') s2)) \<le> 1
            \<and> (length (filter (\<lambda>x. task_id x = dict_get out ''task_id'') (songs w')) = 1 \<longrightarrow>
                 persist_song e2 (songs w') s2 = songs w'))"
proof -
  let ?T = "dict_get out ''task_id''"
  define song where "song = Song_init (py_or p_title (JStr ''Untitled'')) p_lyrics p_style
      (py_or p_mood (JStr [])) (py_or p_theme (JStr [])) ?T JNull JNull processing (JStr []) JNull"
  have song: "task_id song = ?T" "truthy (task_id song)" "songs w' = persist_song e (songs w) song"
    using generate_music_accepted[OF assms(2)] by (simp_all add: song_def Song_init_fields)
  have nn: "task_id song \<noteq> JNull" using song(2) by auto
  have d': "distinct (map task_id (songs w'))"
    using assms(1) song(3) by (simp add: persist_song_keys)
  have c1: "length (filter (\<lambda>x. task_id x = ?T) (songs w')) \<le> 1"
    by (rule rows_of_task_le[OF d'])
  have c2: "length (filter (\<lambda>x. task_id x = ?T) (songs w')) = 1"
    if "db_query_error e = None \<and> db_commit_error e = None"
  proof -
    have "?T \<in> set (map task_id (songs w'))"
      using persist_song_present[of e song "songs w"] that nn song by simp
    from rows_of_task_pos[OF this] c1 show ?thesis by linarith
  qed
  have c3: "length (filter (\<lambda>x. task_id x = ?T) (persist_song e2 (songs w') s2)) \<le> 1"
    by (rule rows_of_task_le[OF persist_song_keys[OF d']])
  have c4: "persist_song e2 (songs w') s2 = songs w'"
    if "task_id s2 = ?T" "length (filter (\<lambda>x. task_id x = ?T) (songs w')) = 1"
  proof -
    have "filter (\<lambda>x. task_id x = ?T) (songs w') \<noteq> []" using that(2) by auto
    then obtain x where "x \<in> set (songs w')" "task_id x = ?T"
      unfolding filter_empty_conv by blast
    then have "?T \<in> set (map task_id (songs w'))" by (rule task_id_listed)
    then show ?thesis using that(1) by (simp add: persist_song_again)
  qed
  show ?thesis using c1 c2 c3 c4 by blast
qed


text \<open>The example: an accepted submission on the empty table.\<close>

lemma accepted_call:
  "generate_music example_cfg example_env (JStr ''la la la'') (JStr ''pop'') (JStr ''Dawn'')
      JNull JNull JNull True False initial_world
   = (Inr (JDict [(''message'', JStr ''Generation started''), (''task_id'', JStr ''abc''),
                  (''data'', JDict [(''taskId'', JStr ''abc'')]), (''audio_url'', JNull)], 202),
      \<lparr>songs = [\<lparr>song_id = 1, task_id = JStr ''abc'', title = JStr ''Dawn'',
                  lyrics = JStr ''la la la'', style = JStr ''pop'', mood = JStr [],
                  theme = JStr [], artist_name = JStr [], audio_url = JNull, suno_url = JNull,
                  cloudinary_url = JNull, status = processing, retry_count = 0,
                  error_message = JNull, duration = JNull\<rparr>],
        sent = [JDict [(''customMode'', JBool True), (''instrumental'', JBool False),
                       (''prompt'', JStr ''la la la''), (''title'', JStr ''Dawn''),
                       (''mood'', JStr []), (''theme'', JStr []), (''model'', JStr ''V4_5''),
                       (''callbackUrl'', JStr ''http://localhost:5000/receive_song''),
                       (''style'', JStr ''pop'')]]\<rparr>)"
  by code_simp

theorem generate_music_insert_if_absent_witness:
  "distinct (map task_id (songs initial_world))
   \<and> length (filter (\<lambda>x. task_id x = JStr ''abc'')
        (songs (snd (generate_music example_cfg example_env (JStr ''la la la'') (JStr ''pop'')
                       (JStr ''Dawn'') JNull JNull JNull True False initial_world)))) = 1
   \<and> persist_song example_env
        (songs (snd (generate_music example_cfg example_env (JStr ''la la la'') (JStr ''pop'')
                       (JStr ''Dawn'') JNull JNull JNull True False initial_world)))
        (Song_init (JStr ''Dusk'') (JStr ''la'') (JStr ''pop'') (JStr []) (JStr []) (JStr ''abc'')
           JNull JNull processing (JStr []) JNull)
       = songs (snd (generate_music example_cfg example_env (JStr ''la la la'') (JStr ''pop'')
                       (JStr ''Dawn'') JNull JNull JNull True False initial_world))"
proof -
  have h1: "distinct (map task_id (songs initial_world))"
    by (simp add: initial_world_def)
  have h2: "db_query_error example_env = None \<and> db_commit_error example_env = None"
    by (simp add: example_env_def)
  have h3: "task_id (Song_init (JStr ''Dusk'') (JStr ''la'') (JStr ''pop'') (JStr []) (JStr [])
                       (JStr ''abc'') JNull JNull processing (JStr []) JNull)
            = dict_get [(''message'', JStr ''Generation started''), (''task_id'', JStr ''abc''),
                        (''data'', JDict [(''taskId'', JStr ''abc'')]), (''audio_url'', JNull)]
                ''task_id''"
    by (simp add: Song_init_def dict_get_def)
  have h4: "dict_get [(''message'', JStr ''Generation started''), (''task_id'', JStr ''abc''),
                      (''data'', JDict [(''taskId'', JStr ''abc'')]), (''audio_url'', JNull)]
              ''task_id'' = JStr ''abc''"
    by (simp add: dict_get_def)
  show ?thesis
    using h1 h2 h3 generate_music_insert_if_absent[OF h1 accepted_call,
        of "Song_init (JStr ''Dusk'') (JStr ''la'') (JStr ''pop'') (JStr []) (JStr []) (JStr ''abc'')
              JNull JNull processing (JStr []) JNull" example_env]
    unfolding h4 accepted_call
    by simp
qed

text \<open>
  Claim C1 as stated fails when the commit of the insert raises: the exception is logged
  and swallowed, the caller gets the 202 answer with task id \<open>abc\<close>, and no row with that
  task id exists.
\<close>

theorem swallowed_insert_failure_counterexample:
  "fst (generate_music example_cfg (example_env\<lparr>db_commit_error := Some ''connection lost''\<rparr>)
          (JStr ''la la la'') (JStr ''pop'') (JStr ''Dawn'') JNull JNull JNull True False initial_world)
   = Inr (JDict [(''message'', JStr ''Generation started''), (''task_id'', JStr ''abc''),
                 (''data'', JDict [(''taskId'', JStr ''abc'')]), (''audio_url'', JNull)], 202)
   \<and> length (filter (\<lambda>x. task_id x = JStr ''abc'')
         (songs (snd (generate_music example_cfg
                        (example_env\<lparr>db_commit_error := Some ''connection lost''\<rparr>)
                        (JStr ''la la la'') (JStr ''pop'') (JStr ''Dawn'') JNull JNull JNull True False
                        initial_world)))) = 0"
  by code_simp

section \<open>The callback, run twice\<close>

text \<open>
  Claim C3. The specification sets \<open>cloudinary_url\<close> at most once per task, and makes a
  second run of the callback handler with the same \<open>{task_id, audio_url}\<close> leave it as the
  first successful run stored it. The callback handler does not look whether a URL is
  already stored: for the row of \<open>abc\<close>, the first callback stores the URL of its upload
  and the status \<open>completed\<close>; the second callback with the same body uploads again,
  answers 200 and stores the URL of the second upload, which the storage provider names
  differently. The poll of the same row with the same collaborators, which tests that no
  URL is stored yet, keeps the first URL.
\<close>

theorem callback_rerun_overwrites_url:
  "receive_song example_env (Inr callback_body) created_world
   = ((JDict [(''message'', JStr ''Song stored successfully''), (''task_id'', JStr ''abc''),
              (''cloudinary_url'', JStr ''https://res.cloudinary.com/demo/a.mp3'')], 200),
      completed_world)
   \<and> map cloudinary_url (songs completed_world) = [JStr ''https://res.cloudinary.com/demo/a.mp3'']
   \<and> map status (songs completed_world) = [completed]
   \<and> receive_song second_upload_env (Inr callback_body) completed_world
   = ((JDict [(''message'', JStr ''Song stored successfully''), (''task_id'', JStr ''abc''),
              (''cloudinary_url'', JStr ''https://res.cloudinary.com/demo/b.mp3'')], 200),
      \<lparr>songs = [\<lparr>song_id = 1, task_id = JStr ''abc'',
                  title = JStr ''Untitled_20250101_120000_0a1b2c3d'',
                  lyrics = JStr ''la la la'', style = JStr ''lofi'',
                  mood = JStr [], theme = JStr [], artist_name = JStr [],
                  audio_url = JStr ''https://res.cloudinary.com/demo/b.mp3'',
                  suno_url = JStr ''https://cdn.suno.example/x.mp3'',
                  cloudinary_url = JStr ''https://res.cloudinary.com/demo/b.mp3'',
                  status = completed, retry_count = 0, error_message = JNull,
                  duration = JNull\<rparr>],
        sent = sent created_world\<rparr>)
   \<and> map cloudinary_url (songs (snd (check_status_route second_upload_env ''abc'' completed_world)))
       = [JStr ''https://res.cloudinary.com/demo/a.mp3'']"
  by code_simp

text \<open>Read off the evaluation: the second callback succeeds and the stored URL is the one
  of the second upload.\<close>

theorem callback_rerun_overwrites_url_witness:
  "snd (fst (receive_song second_upload_env (Inr callback_body) completed_world)) = 200
   \<and> map cloudinary_url
        (songs (snd (receive_song second_upload_env (Inr callback_body) completed_world)))
       = [JStr ''https://res.cloudinary.com/demo/b.mp3'']
   \<and> map status
        (songs (snd (receive_song second_upload_env (Inr callback_body) completed_world)))
       = [completed]"
  using callback_rerun_overwrites_url by simp

section \<open>The status query\<close>

lemma truthy_py_or: "truthy (py_or a b) = (truthy a \<or> truthy b)"
  by (simp add: py_or_def)

lemma status_audio_url_defined:
  assumes "first_is_object data_field"
  shows "\<exists>url. status_audio_url data_field = Inr url \<and> truthy url = audio_present data_field"
proof (cases data_field)
  case (JList xs)
  show ?thesis
  proof (cases xs)
    case Nil
    with JList show ?thesis by (simp add: status_audio_url_def audio_present_def)
  next
    case (Cons x rest)
    with JList assms show ?thesis
      by (cases x) (simp_all add: status_audio_url_def audio_present_def first_is_object_def truthy_py_or)
  qed
qed (simp_all add: status_audio_url_def audio_present_def truthy_py_or)

text \<open>
  Claim C7, amended. \<open>check_status\<close> returns a result, without raising, for every
  outcome of the status query that is a failure of the request, a body that is not
  JSON, or a JSON object whose \<open>data\<close> is not a list starting with a value that is not an
  object. A failed request gives an error payload with 500. A body that is not JSON
  gives the payload \<open>Invalid JSON from Suno\<close> with the provider's HTTP status, also when
  that status is 404. For a JSON object: HTTP 404 or a body status 404 gives \<open>not_found\<close>
  with 404; otherwise a status other than 200 or a provider code other than 200 gives
  \<open>error\<close> with the provider's HTTP status; otherwise an audio URL under \<open>audio_url\<close> or
  \<open>audioUrl\<close>, in a \<open>data\<close> object or in the first element of a \<open>data\<close> list, gives
  \<open>completed\<close> with 200 and that URL; otherwise the result is \<open>pending\<close> with 202.
\<close>

theorem check_status_classifies:
  "(suno_get e p_task_id = HttpError msg \<longrightarrow>
      check_status e p_task_id = Inr (JDict [(''error'', JStr msg)], 500))
   \<and> (suno_get e p_task_id = HttpResponse status_code text None \<longrightarrow>
      check_status e p_task_id
        = Inr (JDict [(''error'', JStr ''Invalid JSON from Suno''), (''raw_response'', JStr text)],
               status_code))
   \<and> (suno_get e p_task_id = HttpResponse status_code text (Some (JDict js)) \<longrightarrow>
      (status_code = 404 \<or> py_eq_int (dict_get js ''status'') 404 \<longrightarrow>
         (\<exists>p. check_status e p_task_id = Inr (JDict p, 404)
              \<and> dict_get p ''status'' = JStr ''not_found''))
      \<and> (\<not> (status_code = 404 \<or> py_eq_int (dict_get js ''status'') 404)
          \<and> (status_code \<noteq> 200
               \<or> \<not> (py_eq_int (dict_get js ''code'') 200 \<or> dict_get js ''code'' = JNull)) \<longrightarrow>
         (\<exists>p. check_status e p_task_id = Inr (JDict p, status_code)
              \<and> dict_get p ''status'' = JStr ''error''))
      \<and> (\<not> (status_code = 404 \<or> py_eq_int (dict_get js ''status'') 404)
          \<and> status_code = 200
          \<and> (py_eq_int (dict_get js ''code'') 200 \<or> dict_get js ''code'' = JNull)
          \<and> first_is_object (dict_get js ''data'') \<longrightarrow>
         (\<exists>p. check_status e p_task_id
                = Inr (JDict p, if audio_present (dict_get js ''data'') then 200 else 202)
              \<and> dict_get p ''status''
                = JStr (if audio_present (dict_get js ''data'') then ''completed'' else ''pending'')
              \<and> truthy (dict_get p ''audio_url'') = audio_present (dict_get js ''data''))))"
proof (intro conjI impI)
  assume "suno_get e p_task_id = HttpError msg"
  then show "check_status e p_task_id = Inr (JDict [(''error'', JStr msg)], 500)"
    by (simp add: check_status_def)
next
  assume "suno_get e p_task_id = HttpResponse status_code text None"
  then show "check_status e p_task_id
        = Inr (JDict [(''error'', JStr ''Invalid JSON from Suno''), (''raw_response'', JStr text)],
               status_code)"
    by (simp add: check_status_def)
next
  assume "suno_get e p_task_id = HttpResponse status_code text (Some (JDict js))"
    and "status_code = 404 \<or> py_eq_int (dict_get js ''status'') 404"
  then show "\<exists>p. check_status e p_task_id = Inr (JDict p, 404)
              \<and> dict_get p ''status'' = JStr ''not_found''"
    by (auto simp: check_status_def dict_get_def)
next
  assume "suno_get e p_task_id = HttpResponse status_code text (Some (JDict js))"
    and "\<not> (status_code = 404 \<or> py_eq_int (dict_get js ''status'') 404)
          \<and> (status_code \<noteq> 200
               \<or> \<not> (py_eq_int (dict_get js ''code'') 200 \<or> dict_get js ''code'' = JNull))"
  then show "\<exists>p. check_status e p_task_id = Inr (JDict p, status_code)
              \<and> dict_get p ''status'' = JStr ''error''"
    by (auto simp: check_status_def dict_get_def)
next
  assume r: "suno_get e p_task_id = HttpResponse status_code text (Some (JDict js))"
    and c: "\<not> (status_code = 404 \<or> py_eq_int (dict_get js ''status'') 404)
          \<and> status_code = 200
          \<and> (py_eq_int (dict_get js ''code'') 200 \<or> dict_get js ''code'' = JNull)
          \<and> first_is_object (dict_get js ''data'')"
  then obtain url where u: "status_audio_url (dict_get js ''data'') = Inr url"
      "truthy url = audio_present (dict_get js ''data'')"
    using status_audio_url_defined by blast
  have cs: "check_status e p_task_id =
          (if truthy url
           then Inr (JDict [(''task_id'', JStr p_task_id), (''status'', JStr ''completed''),
                            (''audio_url'', url)], 200)
           else Inr (JDict [(''task_id'', JStr p_task_id), (''status'', JStr ''pending'')], 202))"
    using r c u(1) by (simp add: check_status_def)
  show "\<exists>p. check_status e p_task_id
                = Inr (JDict p, if audio_present (dict_get js ''data'') then 200 else 202)
              \<and> dict_get p ''status''
                = JStr (if audio_present (dict_get js ''data'') then ''completed'' else ''pending'')
              \<and> truthy (dict_get p ''audio_url'') = audio_present (dict_get js ''data'')"
  proof (cases "truthy url")
    case True
    with cs u(2) show ?thesis by (simp add: dict_get_def)
  next
    case False
    with cs u(2) show ?thesis by (simp add: dict_get_def)
  qed
qed

text \<open>
  Claim C7 as stated fails. For HTTP 404 with a body that is not JSON the result is the
  \<open>Invalid JSON from Suno\<close> payload (with 404), not a \<open>not_found\<close> result; for HTTP 404
  with a JSON body that is not an object the function raises \<^verbatim>\<open>AttributeError\<close>, which
  its \<^verbatim>\<open>except requests.exceptions.RequestException\<close> does not catch.
\<close>

theorem check_status_not_found_counterexample:
  "check_status not_json_404_env ''abc''
     = Inr (JDict [(''error'', JStr ''Invalid JSON from Suno''),
                   (''raw_response'', JStr ''<html>Not Found</html>'')], 404)
   \<and> check_status json_list_404_env ''abc'' = Inl (no_attribute (JList []) ''get'')"
  by code_simp


theorem check_status_classifies_witness:
  "check_status (example_env\<lparr>suno_get := (\<lambda>t. HttpError ''connection refused'')\<rparr>) ''abc''
     = Inr (JDict [(''error'', JStr ''connection refused'')], 500)
   \<and> check_status not_json_404_env ''abc''
     = Inr (JDict [(''error'', JStr ''Invalid JSON from Suno''),
                   (''raw_response'', JStr ''<html>Not Found</html>'')], 404)
   \<and> (\<exists>p. check_status
              (example_env\<lparr>suno_get := (\<lambda>t. HttpResponse 200 ''ok''
                  (Some (JDict [(''status'', JInt 404), (''message'', JStr ''no such task'')])))\<rparr>)
              ''abc'' = Inr (JDict p, 404)
            \<and> dict_get p ''status'' = JStr ''not_found'')
   \<and> (\<exists>p. check_status
              (example_env\<lparr>suno_get := (\<lambda>t. HttpResponse 200 ''ok''
                  (Some (JDict [(''code'', JInt 500), (''msg'', JStr ''render failed'')])))\<rparr>)
              ''abc'' = Inr (JDict p, 200)
            \<and> dict_get p ''status'' = JStr ''error'')
   \<and> first_is_object (JDict [(''audio_url'', JStr ''https://cdn.suno.example/x.mp3'')])
   \<and> audio_present (JDict [(''audio_url'', JStr ''https://cdn.suno.example/x.mp3'')])
   \<and> (\<exists>p. check_status example_env ''abc'' = Inr (JDict p, 200)
            \<and> dict_get p ''status'' = JStr ''completed''
            \<and> truthy (dict_get p ''audio_url''))"
proof -
  let ?nf = "example_env\<lparr>suno_get := (\<lambda>t. HttpResponse 200 ''ok''
                  (Some (JDict [(''status'', JInt 404), (''message'', JStr ''no such task'')])))\<rparr>"
  let ?er = "example_env\<lparr>suno_get := (\<lambda>t. HttpResponse 200 ''ok''
                  (Some (JDict [(''code'', JInt 500), (''msg'', JStr ''render failed'')])))\<rparr>"
  let ?ce = "example_env\<lparr>suno_get := (\<lambda>t. HttpError ''connection refused'')\<rparr>"
  have g1: "suno_get ?ce ''abc'' = HttpError ''connection refused''"
    by simp
  have g2: "suno_get not_json_404_env ''abc'' = HttpResponse 404 ''<html>Not Found</html>'' None"
    by (simp add: not_json_404_env_def)
  have g3: "suno_get ?nf ''abc'' = HttpResponse 200 ''ok''
              (Some (JDict [(''status'', JInt 404), (''message'', JStr ''no such task'')]))"
    by simp
  have g4: "suno_get ?er ''abc'' = HttpResponse 200 ''ok''
              (Some (JDict [(''code'', JInt 500), (''msg'', JStr ''render failed'')]))"
    by simp
  have g5: "suno_get example_env ''abc'' = HttpResponse 200 ''ok''
              (Some (JDict [(''code'', JInt 200),
                 (''data'', JDict [(''audio_url'', JStr ''https://cdn.suno.example/x.mp3'')])]))"
    by (simp add: example_env_def rendered_response_def)
  have s: "first_is_object (JDict [(''audio_url'', JStr ''https://cdn.suno.example/x.mp3'')])"
    "audio_present (JDict [(''audio_url'', JStr ''https://cdn.suno.example/x.mp3'')])"
    by (simp_all add: first_is_object_def audio_present_def dict_get_def)
  have c1: "check_status ?ce ''abc'' = Inr (JDict [(''error'', JStr ''connection refused'')], 500)"
    using check_status_classifies[of ?ce "''abc''" "''connection refused''"] g1 by blast
  have c2: "check_status not_json_404_env ''abc''
     = Inr (JDict [(''error'', JStr ''Invalid JSON from Suno''),
                   (''raw_response'', JStr ''<html>Not Found</html>'')], 404)"
    using check_status_classifies[of not_json_404_env "''abc''" _ 404 "''<html>Not Found</html>''"] g2
    by blast
  have c3: "\<exists>p. check_status ?nf ''abc'' = Inr (JDict p, 404)
            \<and> dict_get p ''status'' = JStr ''not_found''"
    using check_status_classifies[of ?nf "''abc''" _ 200 "''ok''"
        "[(''status'', JInt 404), (''message'', JStr ''no such task'')]"] g3
    by (simp add: dict_get_def)
  have c4: "\<exists>p. check_status ?er ''abc'' = Inr (JDict p, 200)
            \<and> dict_get p ''status'' = JStr ''error''"
    using check_status_classifies[of ?er "''abc''" _ 200 "''ok''"
        "[(''code'', JInt 500), (''msg'', JStr ''render failed'')]"] g4
    by (simp add: dict_get_def)
  have c5: "\<exists>p. check_status example_env ''abc'' = Inr (JDict p, 200)
            \<and> dict_get p ''status'' = JStr ''completed''
            \<and> truthy (dict_get p ''audio_url'')"
    using check_status_classifies[of example_env "''abc''" _ 200 "''ok''"
        "[(''code'', JInt 200),
          (''data'', JDict [(''audio_url'', JStr ''https://cdn.suno.example/x.mp3'')])]"] g5 s
    by (simp add: dict_get_def)
  show ?thesis using c1 c2 c3 c4 c5 s by blast
qed

section \<open>The payload of an instrumental request\<close>

lemma generate_music_sent:
  assumes "style_included p_style = Inr with_style"
  shows "sent (snd (generate_music cfg e p_lyrics p_style p_title p_mood p_theme callback_url
                      custom_mode instrumental w))
         = sent w @
           [JDict ([(''customMode'', JBool custom_mode),
                    (''instrumental'', JBool instrumental),
                    (''prompt'', p_lyrics),
                    (''title'', py_or p_title (JStr ''Untitled'')),
                    (''mood'', py_or p_mood (JStr [])),
                    (''theme'', py_or p_theme (JStr [])),
                    (''model'', JStr ''V4_5''),
                    (''callbackUrl'',
                       if \<not> truthy callback_url
                       then JStr (rstrip_char CHR ''/'' (app_base_url cfg) @ ''/receive_song'')
                       else callback_url)]
                   @ (if with_style then [(''style'', p_style)] else []))]"
  using assms
  by (simp add: generate_music_def Let_def split: sum.splits prod.splits)

lemma generate_song_sent:
  assumes "unique_title e p_title = Inr title1" and "generate_lyrics e = Inr lyrics1"
  shows "sent (snd (generate_song cfg e p_title p_theme genre p_mood p_style instrumental w))
         = sent (snd (generate_music cfg e lyrics1 p_style title1 p_mood p_theme JNull True
                        instrumental w))"
  using assms
  by (simp add: generate_song_def split: sum.splits prod.splits)

text \<open>
  Claim C9, amended. For \<^verbatim>\<open>POST /create_song\<close> with the body
  \<open>{"style":"instrumental","genre":"lofi"}\<close>, when the lyrics are generated, the route
  turns instrumental mode on and replaces the style by the genre, and the payload handed
  to the provider sets \<open>instrumental\<close> to true and carries the style \<open>lofi\<close>.
  \<open>generate_music\<close> leaves the \<open>style\<close> field out when the style it is given is itself
  \<open>instrumental\<close>.
\<close>

theorem instrumental_request_payload:
  assumes "gemini e = Inr text"
  shows "sent (snd (create_song cfg e (Inr instrumental_body) w))
         = sent w @
           [JDict [(''customMode'', JBool True),
                   (''instrumental'', JBool True),
                   (''prompt'', JStr text),
                   (''title'', JStr (''Untitled_'' @ unique_suffix e)),
                   (''mood'', JStr []),
                   (''theme'', JStr []),
                   (''model'', JStr ''V4_5''),
                   (''callbackUrl'', JStr (rstrip_char CHR ''/'' (app_base_url cfg) @ ''/receive_song'')),
                   (''style'', JStr ''lofi'')]]
       \<and> sent (snd (generate_music cfg e p_lyrics (JStr ''instrumental'') p_title p_mood p_theme
                       callback_url custom_mode instrumental w))
         = sent w @
           [JDict [(''customMode'', JBool custom_mode),
                   (''instrumental'', JBool instrumental),
                   (''prompt'', p_lyrics),
                   (''title'', py_or p_title (JStr ''Untitled'')),
                   (''mood'', py_or p_mood (JStr [])),
                   (''theme'', py_or p_theme (JStr [])),
                   (''model'', JStr ''V4_5''),
                   (''callbackUrl'',
                      if \<not> truthy callback_url
                      then JStr (rstrip_char CHR ''/'' (app_base_url cfg) @ ''/receive_song'')
                      else callback_url)]]"
proof -
  have low: "lower ''instrumental'' = ''instrumental''"
    by code_simp
  have ut: "unique_title e (JStr ''Untitled'') = Inr (JStr (''Untitled_'' @ unique_suffix e))"
  proof -
    have "strip ''Untitled'' = ''Untitled''" by code_simp
    then show ?thesis by (simp add: unique_title_def)
  qed
  have gl: "generate_lyrics e = Inr (JStr text)"
    using assms by (simp add: generate_lyrics_def)
  have si: "style_included (JStr ''lofi'') = Inr True"
    by code_simp
  have so: "style_included (JStr ''instrumental'') = Inr False"
    by code_simp
  have cs: "snd (create_song cfg e (Inr instrumental_body) w)
            = snd (generate_song cfg e (JStr ''Untitled'') (JStr []) (JStr ''lofi'') (JStr [])
                     (JStr ''lofi'') True w)"
    by (simp add: create_song_def instrumental_body_def dict_get_default_def low Let_def
        case_prod_beta)
  have p1: "sent (snd (create_song cfg e (Inr instrumental_body) w))
         = sent w @
           [JDict [(''customMode'', JBool True),
                   (''instrumental'', JBool True),
                   (''prompt'', JStr text),
                   (''title'', JStr (''Untitled_'' @ unique_suffix e)),
                   (''mood'', JStr []),
                   (''theme'', JStr []),
                   (''model'', JStr ''V4_5''),
                   (''callbackUrl'', JStr (rstrip_char CHR ''/'' (app_base_url cfg) @ ''/receive_song'')),
                   (''style'', JStr ''lofi'')]]"
    unfolding cs generate_song_sent[OF ut gl] generate_music_sent[OF si]
    by (simp add: py_or_def)
  show ?thesis
    using p1 generate_music_sent[OF so, of cfg e p_lyrics p_title p_mood p_theme callback_url
        custom_mode instrumental w]
    by simp
qed

theorem instrumental_request_payload_witness:
  "gemini example_env = Inr ''la la la''
   \<and> sent (snd (create_song example_cfg example_env (Inr instrumental_body) initial_world))
     = [JDict [(''customMode'', JBool True),
               (''instrumental'', JBool True),
               (''prompt'', JStr ''la la la''),
               (''title'', JStr ''Untitled_20250101_120000_0a1b2c3d''),
               (''mood'', JStr []),
               (''theme'', JStr []),
               (''model'', JStr ''V4_5''),
               (''callbackUrl'', JStr ''http://localhost:5000/receive_song''),
               (''style'', JStr ''lofi'')]]"
proof -
  have h: "gemini example_env = Inr ''la la la''"
    by (simp add: example_env_def)
  have r: "rstrip_char CHR ''/'' (app_base_url example_cfg) = ''http://localhost:5000''"
    by code_simp
  have u: "unique_suffix example_env = ''20250101_120000_0a1b2c3d''"
    by (simp add: example_env_def)
  show ?thesis
    using h instrumental_request_payload[OF h, of example_cfg initial_world]
    by (simp add: r u initial_world_def)
qed

text \<open>
  Claim C9 as stated fails: the payload sent for the instrumental body has a \<open>style\<close>
  field, with the genre \<open>lofi\<close> the route fell back to.
\<close>

theorem instrumental_style_sent_counterexample:
  "sent (snd (create_song example_cfg example_env (Inr instrumental_body) initial_world))
     = [JDict [(''customMode'', JBool True),
               (''instrumental'', JBool True),
               (''prompt'', JStr ''la la la''),
               (''title'', JStr ''Untitled_20250101_120000_0a1b2c3d''),
               (''mood'', JStr []),
               (''theme'', JStr []),
               (''model'', JStr ''V4_5''),
               (''callbackUrl'', JStr ''http://localhost:5000/receive_song''),
               (''style'', JStr ''lofi'')]]
   \<and> dict_get [(''customMode'', JBool True),
               (''instrumental'', JBool True),
               (''prompt'', JStr ''la la la''),
               (''title'', JStr ''Untitled_20250101_120000_0a1b2c3d''),
               (''mood'', JStr []),
               (''theme'', JStr []),
               (''model'', JStr ''V4_5''),
               (''callbackUrl'', JStr ''http://localhost:5000/receive_song''),
               (''style'', JStr ''lofi'')] ''style'' = JStr ''lofi''"
  by code_simp

section \<open>Where the code departs from the specification\<close>

text \<open>
  Claim C6. The specification lets the task id of an accepted response stand under
  \<open>taskId\<close>, \<open>task_id\<close> or \<open>id\<close>, in a \<open>data\<close> object or in the first element of a \<open>data\<close>
  list. The code reads \<open>id\<close> only in the list: for the accepted response
  \<open>{"code":200,"data":{"id":"abc"}}\<close> it finds no task id, answers 502 and inserts no
  row, while the same object inside a list, and \<open>extract_task_id\<close> on the same response,
  give \<open>abc\<close>.
\<close>

theorem data_object_id_not_read:
  "generate_music example_cfg id_only_env (JStr ''la la la'') (JStr ''pop'') (JStr ''Dawn'')
      JNull JNull JNull True False initial_world
   = (Inr (JDict [(''error'', JStr ''Suno did not return a recognizable task id''),
                  (''raw_response'', id_only_response)], 502),
      \<lparr>songs = [],
        sent = [JDict [(''customMode'', JBool True), (''instrumental'', JBool False),
                       (''prompt'', JStr ''la la la''), (''title'', JStr ''Dawn''),
                       (''mood'', JStr []), (''theme'', JStr []), (''model'', JStr ''V4_5''),
                       (''callbackUrl'', JStr ''http://localhost:5000/receive_song''),
                       (''style'', JStr ''pop'')]]\<rparr>)
   \<and> suno_task_id_of [(''code'', JInt 200), (''data'', JDict [(''id'', JStr ''abc'')])] = Inr JNull
   \<and> suno_task_id_of [(''code'', JInt 200), (''data'', JList [JDict [(''id'', JStr ''abc'')]])]
       = Inr (JStr ''abc'')
   \<and> extract_task_id id_only_response = JStr ''abc''"
  by code_simp

text \<open>Read off the evaluation: the call answers 502 and the table stays empty.\<close>

theorem data_object_id_not_read_witness:
  "snd (projr (fst (generate_music example_cfg id_only_env (JStr ''la la la'') (JStr ''pop'')
                     (JStr ''Dawn'') JNull JNull JNull True False initial_world))) = 502
   \<and> songs (snd (generate_music example_cfg id_only_env (JStr ''la la la'') (JStr ''pop'')
                    (JStr ''Dawn'') JNull JNull JNull True False initial_world)) = []"
  using data_object_id_not_read by simp

text \<open>
  Claim C8. The specification leaves the row untouched when the upload on a poll fails.
  The code does not look at the URL the upload helper returns: with the row of \<open>abc\<close> in
  state \<open>processing\<close>, the provider reporting the audio and the upload returning the empty
  URL, the poll writes \<open>suno_url\<close>, sets \<open>cloudinary_url\<close> and \<open>audio_url\<close> to the empty
  string and the status to \<open>completed\<close>, commits, and answers 202 with the status
  \<open>completed\<close>.
\<close>

theorem poll_with_failed_upload_completes_row:
  "songs created_world =
     [\<lparr>song_id = 1, task_id = JStr ''abc'',
       title = JStr ''Untitled_20250101_120000_0a1b2c3d'',
       lyrics = JStr ''la la la'', style = JStr ''lofi'',
       mood = JStr [], theme = JStr [], artist_name = JStr [],
       audio_url = JNull, suno_url = JNull, cloudinary_url = JNull,
       status = processing, retry_count = 0, error_message = JNull,
       duration = JNull\<rparr>]
   \<and> upload_to_cloudinary failed_upload_env (JStr ''https://cdn.suno.example/x.mp3'') = []
   \<and> check_status failed_upload_env ''abc''
       = Inr (JDict [(''task_id'', JStr ''abc''), (''status'', JStr ''completed''),
                     (''audio_url'', JStr ''https://cdn.suno.example/x.mp3'')], 200)
   \<and> check_status_route failed_upload_env ''abc'' created_world
       = ((JDict [(''status'', JStr ''completed''), (''task_id'', JStr ''abc''),
                  (''audio_url'', JStr []), (''lyrics'', JStr ''la la la'')], 202),
          \<lparr>songs = [\<lparr>song_id = 1, task_id = JStr ''abc'',
                      title = JStr ''Untitled_20250101_120000_0a1b2c3d'',
                      lyrics = JStr ''la la la'', style = JStr ''lofi'',
                      mood = JStr [], theme = JStr [], artist_name = JStr [],
                      audio_url = JStr [],
                      suno_url = JStr ''https://cdn.suno.example/x.mp3'',
                      cloudinary_url = JStr [],
                      status = completed, retry_count = 0, error_message = JNull,
                      duration = JNull\<rparr>],
            sent = sent created_world\<rparr>)"
  by code_simp

text \<open>Read off the evaluation: the row that was \<open>processing\<close> is \<open>completed\<close> with an empty
  URL, and the answer is 202.\<close>

theorem poll_with_failed_upload_completes_row_witness:
  "map status (songs created_world) = [processing]
   \<and> map status (songs (snd (check_status_route failed_upload_env ''abc'' created_world))) = [completed]
   \<and> map cloudinary_url (songs (snd (check_status_route failed_upload_env ''abc'' created_world)))
       = [JStr []]
   \<and> snd (fst (check_status_route failed_upload_env ''abc'' created_world)) = 202"
  using poll_with_failed_upload_completes_row by simp

end
